theory Spec2Isabelle
  imports Complex_Main
begin

section \<open>Go values: errors, nil pointers, panics, remote calls\<close>

text \<open>
  A Go \<^verbatim>\<open>error\<close> is either a leaf error carrying its message (\<^verbatim>\<open>errors.New\<close>,
  \<^verbatim>\<open>fmt.Errorf\<close>, or whatever a client library hands back) or the result of
  \<^verbatim>\<open>errors.Wrap(err, msg)\<close>, which keeps the cause and prefixes its message.
  A value of type \<^verbatim>\<open>error\<close> that may be \<^verbatim>\<open>nil\<close> is an \<open>error option\<close>; a pointer
  \<^verbatim>\<open>*T\<close> is a \<open>T option\<close>; a Go result pair \<^verbatim>\<open>(*T, error)\<close> is a pair of options,
  so that every combination the code can observe is a value of the model.
\<close>

datatype error = Err string | Wrap error string

fun Error :: "error \<Rightarrow> string" where
  "Error (Err msg) = msg"
| "Error (Wrap cause msg) = msg @ '': '' @ Error cause"

text \<open>
  A method either returns or panics (nil pointer dereference). It runs against the
  history of remote calls issued so far, and extends that history with each call it
  issues: \<open>('s, 'a) go\<close> with \<open>'s\<close> the list of calls.
\<close>

datatype 'a res = Panic | Ret 'a

type_synonym ('s, 'a) go = "'s \<Rightarrow> 'a res \<times> 's"

definition ret :: "'a \<Rightarrow> ('s, 'a) go" where
  "ret x = (\<lambda>s. (Ret x, s))"

definition panic :: "('s, 'a) go" where
  "panic = (\<lambda>s. (Panic, s))"

definition deref :: "'a option \<Rightarrow> ('s, 'a) go" where
  "deref p = (case p of None \<Rightarrow> panic | Some v \<Rightarrow> ret v)"

definition andThen :: "('s, 'a) go \<Rightarrow> ('a \<Rightarrow> ('s, 'b) go) \<Rightarrow> ('s, 'b) go" where
  "andThen m f = (\<lambda>s. case m s of (Panic, s') \<Rightarrow> (Panic, s') | (Ret x, s') \<Rightarrow> f x s')"

text \<open>
  A remote call \<open>c\<close> is answered by the service as a function of the calls that came
  before it, and is appended to the history.
\<close>

definition call :: "'c \<Rightarrow> ('c list \<Rightarrow> 'r) \<Rightarrow> ('c list, 'r) go" where
  "call c respond = (\<lambda>tr. (Ret (respond tr), tr @ [c]))"

text \<open>
  The loop shared by every by-name scan of the sources:
  \<^verbatim>\<open>for _, x := range xs { if *x.Name == target { return &x, nil } }\<close>.
  Dereferencing a nil name panics.
\<close>

fun rangeFirst :: "('a \<Rightarrow> string option) \<Rightarrow> string \<Rightarrow> 'a list \<Rightarrow> 'a option res" where
  "rangeFirst name target [] = Ret None"
| "rangeFirst name target (x # xs) =
     (case name x of
        None \<Rightarrow> Panic
      | Some n \<Rightarrow> if n = target then Ret (Some x) else rangeFirst name target xs)"

text \<open>
  The scan reads the entries up to and including the first match. It returns exactly
  when each entry it reads before that match carries a name.
\<close>

definition scannable :: "('a \<Rightarrow> string option) \<Rightarrow> string \<Rightarrow> 'a list \<Rightarrow> bool" where
  "scannable name target xs =
     list_all (\<lambda>x. name x \<noteq> None) (takeWhile (\<lambda>x. name x \<noteq> Some target) xs)"

section \<open>The VPC cluster scope (\<^verbatim>\<open>ClusterScope\<close>)\<close>

subsection \<open>Data of the VPC SDK and of the cluster object\<close>

record SecurityGroupReference =
  sg_ID :: "string option"

record VPC =
  vpc_ID :: "string option"
  vpc_Name :: "string option"
  vpc_DefaultSecurityGroup :: "SecurityGroupReference option"

record FloatingIP =
  fip_ID :: "string option"
  fip_Name :: "string option"

record Subnet =
  subnet_ID :: "string option"
  subnet_Name :: "string option"

record PublicGateway =
  pgw_ID :: "string option"

record ZoneReference =
  zone_Name :: "string option"

record AddressPrefix =
  ap_CIDR :: "string option"
  ap_Zone :: "ZoneReference option"

record IBMVPCClusterSpec =
  spec_VPC :: string
  spec_ResourceGroup :: string
  spec_Zone :: string

record VPCStatus =
  status_vpc_ID :: string

record SubnetStatus =
  status_subnet_ID :: "string option"

record APIEndpoint =
  FIPID :: "string option"

record IBMVPCClusterStatus =
  status_VPC :: VPCStatus
  status_Subnet :: SubnetStatus
  status_APIEndpoint :: APIEndpoint

record IBMVPCCluster =
  cluster_Name :: string
  Spec :: IBMVPCClusterSpec
  Status :: IBMVPCClusterStatus

subsection \<open>The remote calls of the VPC service\<close>

datatype vpc_call =
    Call_ListVpcs
  | Call_CreateVPC string string
  | Call_CreateSecurityGroupRule string string string string
  | Call_DeleteVPC string
  | Call_ListFloatingIps
  | Call_CreateFloatingIP string string string
  | Call_DeleteFloatingIP string
  | Call_ListSubnets
  | Call_ListVPCAddressPrefixes string
  | Call_CreateSubnet string string string string
  | Call_CreatePublicGateway string string
  | Call_SetSubnetPublicGateway string string
  | Call_GetSubnetPublicGateway string
  | Call_UnsetSubnetPublicGateway string
  | Call_DeletePublicGateway string
  | Call_DeleteSubnet string

text \<open>
  The SDK client is outside the repository: it is a parameter. Each operation answers
  from the history of earlier calls and its own arguments, in the order the call
  constructors list them (\<open>Call_CreateVPC\<close>: resource group, name;
  \<open>Call_CreateSecurityGroupRule\<close>: security group, direction, protocol, IP version;
  \<open>Call_CreateFloatingIP\<close>: name, resource group, zone; \<open>Call_CreateSubnet\<close>: CIDR block,
  name, VPC, zone; \<open>Call_CreatePublicGateway\<close>: VPC, zone;
  \<open>Call_SetSubnetPublicGateway\<close>: subnet, gateway). The SDK's third result, the raw HTTP
  response, is dropped by every caller and is left out.
\<close>

record VPCService =
  svc_ListVpcs :: "vpc_call list \<Rightarrow> VPC list option \<times> error option"
  svc_CreateVPC :: "vpc_call list \<Rightarrow> string \<Rightarrow> string \<Rightarrow> VPC option \<times> error option"
  svc_CreateSecurityGroupRule ::
    "vpc_call list \<Rightarrow> string \<Rightarrow> string \<Rightarrow> string \<Rightarrow> string \<Rightarrow> error option"
  svc_DeleteVPC :: "vpc_call list \<Rightarrow> string \<Rightarrow> error option"
  svc_ListFloatingIps :: "vpc_call list \<Rightarrow> FloatingIP list option \<times> error option"
  svc_CreateFloatingIP ::
    "vpc_call list \<Rightarrow> string \<Rightarrow> string \<Rightarrow> string \<Rightarrow> FloatingIP option \<times> error option"
  svc_DeleteFloatingIP :: "vpc_call list \<Rightarrow> string \<Rightarrow> error option"
  svc_ListSubnets :: "vpc_call list \<Rightarrow> Subnet list option \<times> error option"
  svc_ListVPCAddressPrefixes ::
    "vpc_call list \<Rightarrow> string \<Rightarrow> AddressPrefix list option \<times> error option"
  svc_CreateSubnet ::
    "vpc_call list \<Rightarrow> string \<Rightarrow> string \<Rightarrow> string \<Rightarrow> string \<Rightarrow> Subnet option \<times> error option"
  svc_CreatePublicGateway ::
    "vpc_call list \<Rightarrow> string \<Rightarrow> string \<Rightarrow> PublicGateway option \<times> error option"
  svc_SetSubnetPublicGateway ::
    "vpc_call list \<Rightarrow> string \<Rightarrow> string \<Rightarrow> PublicGateway option \<times> error option"
  svc_GetSubnetPublicGateway :: "vpc_call list \<Rightarrow> string \<Rightarrow> PublicGateway option \<times> error option"
  svc_UnsetSubnetPublicGateway :: "vpc_call list \<Rightarrow> string \<Rightarrow> error option"
  svc_DeletePublicGateway :: "vpc_call list \<Rightarrow> string \<Rightarrow> error option"
  svc_DeleteSubnet :: "vpc_call list \<Rightarrow> string \<Rightarrow> error option"

text \<open>
  A scope as \<^verbatim>\<open>NewClusterScope\<close> builds it: the cluster object and the service client are
  not nil. The logger, the store client and the patch helper play no part below.
\<close>

record ClusterScope =
  VPCService :: VPCService
  IBMVPCCluster :: IBMVPCCluster

subsection \<open>Network\<close>

definition ensureVPCUnique :: "ClusterScope \<Rightarrow> string \<Rightarrow> (vpc_call list, VPC option \<times> error option) go" where
  "ensureVPCUnique s vpcName =
     andThen (call Call_ListVpcs (svc_ListVpcs (VPCService s))) (\<lambda>(vpcs, err).
       if err \<noteq> None then ret (None, err)
       else andThen (deref vpcs) (\<lambda>Vpcs.
         case rangeFirst vpc_Name vpcName Vpcs of
           Panic \<Rightarrow> panic
         | Ret found \<Rightarrow> ret (found, None)))"

definition updateDefaultSG :: "ClusterScope \<Rightarrow> string \<Rightarrow> (vpc_call list, error option) go" where
  "updateDefaultSG s sgID =
     call (Call_CreateSecurityGroupRule sgID ''inbound'' ''all'' ''ipv4'')
       (\<lambda>tr. svc_CreateSecurityGroupRule (VPCService s) tr sgID ''inbound'' ''all'' ''ipv4'')"

definition CreateVPC :: "ClusterScope \<Rightarrow> (vpc_call list, VPC option \<times> error option) go" where
  "CreateVPC s =
     andThen (ensureVPCUnique s (spec_VPC (Spec (IBMVPCCluster s)))) (\<lambda>(vpcReply, err).
       if err \<noteq> None then ret (None, err)
       else if vpcReply \<noteq> None then ret (vpcReply, None)
       else
         let rg = spec_ResourceGroup (Spec (IBMVPCCluster s));
             name = spec_VPC (Spec (IBMVPCCluster s))
         in andThen (call (Call_CreateVPC rg name) (\<lambda>tr. svc_CreateVPC (VPCService s) tr rg name))
              (\<lambda>(vpc, err).
                 if err \<noteq> None then ret (None, err)
                 else andThen (deref vpc) (\<lambda>v.
                      andThen (deref (vpc_DefaultSecurityGroup v)) (\<lambda>sg.
                      andThen (deref (sg_ID sg)) (\<lambda>sgID.
                      andThen (updateDefaultSG s sgID) (\<lambda>err.
                        if err \<noteq> None then ret (None, err) else ret (vpc, None)))))))"

definition DeleteVPC :: "ClusterScope \<Rightarrow> (vpc_call list, error option) go" where
  "DeleteVPC s =
     (let vid = status_vpc_ID (status_VPC (Status (IBMVPCCluster s)))
      in call (Call_DeleteVPC vid) (\<lambda>tr. svc_DeleteVPC (VPCService s) tr vid))"

subsection \<open>Floating IP\<close>

definition ensureFIPUnique ::
  "ClusterScope \<Rightarrow> string \<Rightarrow> (vpc_call list, FloatingIP option \<times> error option) go" where
  "ensureFIPUnique s fipName =
     andThen (call Call_ListFloatingIps (svc_ListFloatingIps (VPCService s))) (\<lambda>(floatingIPs, err).
       if err \<noteq> None then ret (None, err)
       else andThen (deref floatingIPs) (\<lambda>FloatingIps.
         case rangeFirst fip_Name fipName FloatingIps of
           Panic \<Rightarrow> panic
         | Ret found \<Rightarrow> ret (found, None)))"

definition ReserveFIP :: "ClusterScope \<Rightarrow> (vpc_call list, FloatingIP option \<times> error option) go" where
  "ReserveFIP s =
     (let fipName = cluster_Name (IBMVPCCluster s) @ ''-control-plane''
      in andThen (ensureFIPUnique s fipName) (\<lambda>(fipReply, err).
           if err \<noteq> None then ret (None, err)
           else if fipReply \<noteq> None then ret (fipReply, None)
           else
             let rg = spec_ResourceGroup (Spec (IBMVPCCluster s));
                 zone = spec_Zone (Spec (IBMVPCCluster s))
             in call (Call_CreateFloatingIP fipName rg zone)
                  (\<lambda>tr. svc_CreateFloatingIP (VPCService s) tr fipName rg zone)))"

definition DeleteFloatingIP :: "ClusterScope \<Rightarrow> (vpc_call list, error option) go" where
  "DeleteFloatingIP s =
     andThen (deref (FIPID (status_APIEndpoint (Status (IBMVPCCluster s))))) (\<lambda>fipID.
       if fipID \<noteq> ''''
       then call (Call_DeleteFloatingIP fipID) (\<lambda>tr. svc_DeleteFloatingIP (VPCService s) tr fipID)
       else ret None)"

subsection \<open>Subnet and public gateway\<close>

definition ensureSubnetUnique ::
  "ClusterScope \<Rightarrow> string \<Rightarrow> (vpc_call list, Subnet option \<times> error option) go" where
  "ensureSubnetUnique s subnetName =
     andThen (call Call_ListSubnets (svc_ListSubnets (VPCService s))) (\<lambda>(subnets, err).
       if err \<noteq> None then ret (None, err)
       else andThen (deref subnets) (\<lambda>Subnets.
         case rangeFirst subnet_Name subnetName Subnets of
           Panic \<Rightarrow> panic
         | Ret found \<Rightarrow> ret (found, None)))"

definition getSubnetAddrPrefix ::
  "ClusterScope \<Rightarrow> string \<Rightarrow> string \<Rightarrow> (vpc_call list, string \<times> error option) go" where
  "getSubnetAddrPrefix s vpcID zone =
     andThen (call (Call_ListVPCAddressPrefixes vpcID)
                (\<lambda>tr. svc_ListVPCAddressPrefixes (VPCService s) tr vpcID)) (\<lambda>(addrCollection, err).
       if err \<noteq> None then ret ('''', err)
       else andThen (deref addrCollection) (\<lambda>AddressPrefixes.
         case rangeFirst (\<lambda>p. Option.bind (ap_Zone p) zone_Name) zone AddressPrefixes of
           Panic \<Rightarrow> panic
         | Ret (Some addrPrefix) \<Rightarrow> andThen (deref (ap_CIDR addrPrefix)) (\<lambda>cidr. ret (cidr, None))
         | Ret None \<Rightarrow>
             ret ('''', Some (Err (''not found a valid CIDR for VPC '' @ vpcID @ '' in zone '' @ zone)))))"

definition createPublicGateWay ::
  "ClusterScope \<Rightarrow> string \<Rightarrow> string \<Rightarrow> (vpc_call list, PublicGateway option \<times> error option) go" where
  "createPublicGateWay s vpcID zoneName =
     call (Call_CreatePublicGateway vpcID zoneName)
       (\<lambda>tr. svc_CreatePublicGateway (VPCService s) tr vpcID zoneName)"

definition attachPublicGateWay ::
  "ClusterScope \<Rightarrow> string \<Rightarrow> string \<Rightarrow> (vpc_call list, PublicGateway option \<times> error option) go" where
  "attachPublicGateWay s subnetID pgwID =
     call (Call_SetSubnetPublicGateway subnetID pgwID)
       (\<lambda>tr. svc_SetSubnetPublicGateway (VPCService s) tr subnetID pgwID)"

definition detachPublicGateway ::
  "ClusterScope \<Rightarrow> string \<Rightarrow> string \<Rightarrow> (vpc_call list, error option) go" where
  "detachPublicGateway s subnetID pgwID =
     andThen (call (Call_UnsetSubnetPublicGateway subnetID)
                (\<lambda>tr. svc_UnsetSubnetPublicGateway (VPCService s) tr subnetID)) (\<lambda>err.
       case err of
         Some e \<Rightarrow> ret (Some (Wrap e (''Error when unsetting publicgateway for subnet '' @ subnetID)))
       | None \<Rightarrow>
           andThen (call (Call_DeletePublicGateway pgwID)
                      (\<lambda>tr. svc_DeletePublicGateway (VPCService s) tr pgwID)) (\<lambda>err.
             case err of
               Some e \<Rightarrow> ret (Some (Wrap e (''Error when deleting publicgateway for subnet '' @ subnetID)))
             | None \<Rightarrow> ret err))"

text \<open>
  In \<^verbatim>\<open>CreateSubnet\<close> the gateway block declares its own \<^verbatim>\<open>err\<close> twice over, hiding the
  create call's: \<open>gwErr\<close> is the one of \<^verbatim>\<open>createPublicGateWay\<close>, \<open>atErr\<close> the one of
  \<^verbatim>\<open>attachPublicGateWay\<close>, and the final \<^verbatim>\<open>return subnet, err\<close> is about the create call's own.
  The block is entered on a non-nil subnet, whatever the error.
\<close>

definition CreateSubnet :: "ClusterScope \<Rightarrow> (vpc_call list, Subnet option \<times> error option) go" where
  "CreateSubnet s =
     (let subnetName = cluster_Name (IBMVPCCluster s) @ ''-subnet'';
          vpcID = status_vpc_ID (status_VPC (Status (IBMVPCCluster s)));
          zone = spec_Zone (Spec (IBMVPCCluster s))
      in andThen (ensureSubnetUnique s subnetName) (\<lambda>(subnetReply, err).
           if err \<noteq> None then ret (None, err)
           else if subnetReply \<noteq> None then ret (subnetReply, None)
           else andThen (getSubnetAddrPrefix s vpcID zone) (\<lambda>(cidrBlock, err).
             if err \<noteq> None then ret (None, err)
             else andThen (call (Call_CreateSubnet cidrBlock subnetName vpcID zone)
                             (\<lambda>tr. svc_CreateSubnet (VPCService s) tr cidrBlock subnetName vpcID zone))
               (\<lambda>(subnet, err).
                  case subnet of
                    None \<Rightarrow> ret (subnet, err)
                  | Some sn \<Rightarrow>
                      andThen (createPublicGateWay s vpcID zone) (\<lambda>(pgw, gwErr).
                        if gwErr \<noteq> None then ret (subnet, gwErr)
                        else case pgw of
                          None \<Rightarrow> ret (subnet, err)
                        | Some gw \<Rightarrow>
                            andThen (deref (subnet_ID sn)) (\<lambda>subnetID.
                            andThen (deref (pgw_ID gw)) (\<lambda>pgwID.
                            andThen (attachPublicGateWay s subnetID pgwID) (\<lambda>(_, atErr).
                              if atErr \<noteq> None then ret (None, atErr)
                              else ret (subnet, err)))))))))"

text \<open>
  In \<^verbatim>\<open>DeleteSubnet\<close>, \<open>deleteSubnet\<close> names the statements after the gateway block: they run
  when the block is skipped and when it is left without an error. The error of the
  gateway query is overwritten unread.
\<close>

definition DeleteSubnet :: "ClusterScope \<Rightarrow> (vpc_call list, error option) go" where
  "DeleteSubnet s =
     andThen (deref (status_subnet_ID (status_Subnet (Status (IBMVPCCluster s))))) (\<lambda>subnetID.
       let deleteSubnet =
             andThen (call (Call_DeleteSubnet subnetID)
                        (\<lambda>tr. svc_DeleteSubnet (VPCService s) tr subnetID)) (\<lambda>err.
               case err of
                 Some e \<Rightarrow> ret (Some (Wrap e ''Error when deleting subnet ''))
               | None \<Rightarrow> ret err)
       in andThen (call (Call_GetSubnetPublicGateway subnetID)
                     (\<lambda>tr. svc_GetSubnetPublicGateway (VPCService s) tr subnetID)) (\<lambda>(pgw, err).
            if pgw \<noteq> None \<and> err = None
            then andThen (deref pgw) (\<lambda>gw.
                 andThen (deref (pgw_ID gw)) (\<lambda>pgwID.
                 andThen (detachPublicGateway s subnetID pgwID) (\<lambda>err.
                   case err of
                     Some e \<Rightarrow>
                       ret (Some (Wrap e (''Error when detaching publicgateway for subnet '' @ subnetID)))
                   | None \<Rightarrow> deleteSubnet)))
            else deleteSubnet))"

section \<open>The PowerVS machine scope (\<^verbatim>\<open>PowerVSMachineScope\<close>)\<close>

subsection \<open>Data of the PowerVS client and of the machine object\<close>

record PVMInstanceReference =
  pvm_PvmInstanceID :: "string option"
  pvm_ServerName :: "string option"

record ImageReference =
  img_ImageID :: "string option"
  img_Name :: "string option"

record NetworkReference =
  nw_NetworkID :: "string option"
  nw_Name :: "string option"

record PcloudNetworksGetallOK =
  Payload :: "NetworkReference option list option"

record IBMPowerVSResourceReference =
  ref_ID :: "string option"
  ref_Name :: "string option"

record IBMPowerVSMachineSpec =
  ServiceInstanceID :: string
  SSHKey :: string
  spec_Image :: IBMPowerVSResourceReference
  SysType :: string
  ProcType :: string
  Processors :: string
  Memory :: string
  spec_Network :: IBMPowerVSResourceReference

record IBMPowerVSMachineStatus =
  InstanceID :: string

record IBMPowerVSMachine =
  machine_Name :: string
  machine_Spec :: IBMPowerVSMachineSpec
  machine_Status :: IBMPowerVSMachineStatus

record Machine =
  Namespace :: string
  owner_Name :: string
  DataSecretName :: "string option"

record Secret =
  Data :: "string \<rightharpoonup> string"

text \<open>
  The body of the create request; \<open>'f\<close> stands for \<^verbatim>\<open>float64\<close>. \<open>pic_Networks\<close> holds the
  \<^verbatim>\<open>NetworkID\<close> of each attached network.
\<close>

record 'f PVMInstanceCreate =
  pic_ImageID :: "string option"
  pic_KeyPairName :: string
  pic_Networks :: "string option list"
  pic_ServerName :: string
  pic_Memory :: 'f
  pic_Processors :: 'f
  pic_ProcType :: string
  pic_SysType :: string
  pic_UserData :: string

subsection \<open>The remote calls of the machine scope\<close>

text \<open>
  The calls carry the service instance they address; the constant timeouts the source
  passes are left out. \<open>Call_SecretGet\<close> is the read of the bootstrap secret
  (namespace, name) from the object store.
\<close>

datatype 'f pvs_call =
    Call_InstanceGetAll string
  | Call_InstanceCreate "'f PVMInstanceCreate" string
  | Call_InstanceDelete string string
  | Call_ImageGetAll string
  | Call_PcloudNetworksGetall string
  | Call_SecretGet string string

record 'f IBMPowerVSClient =
  InstanceClient_GetAll ::
    "'f pvs_call list \<Rightarrow> string \<Rightarrow> PVMInstanceReference option list option \<times> error option"
  InstanceClient_Create ::
    "'f pvs_call list \<Rightarrow> 'f PVMInstanceCreate \<Rightarrow> string
       \<Rightarrow> PVMInstanceReference option list option \<times> error option"
  InstanceClient_Delete :: "'f pvs_call list \<Rightarrow> string \<Rightarrow> string \<Rightarrow> error option"
  ImageClient_GetAll ::
    "'f pvs_call list \<Rightarrow> string \<Rightarrow> ImageReference option list option \<times> error option"
  PcloudNetworksGetall ::
    "'f pvs_call list \<Rightarrow> string \<Rightarrow> PcloudNetworksGetallOK option \<times> error option"

text \<open>
  A scope as \<^verbatim>\<open>NewPowerVSMachineScope\<close> builds it: the store client, the machine, the
  PowerVS machine object and the PowerVS client are not nil. \<open>client_Get\<close> is the store
  client's \<^verbatim>\<open>Get\<close> into a fresh \<^verbatim>\<open>Secret\<close>: the secret as filled in, and the error.
\<close>

record 'f PowerVSMachineScope =
  client_Get :: "'f pvs_call list \<Rightarrow> string \<Rightarrow> string \<Rightarrow> Secret \<times> error option"
  IBMPowerVSClient :: "'f IBMPowerVSClient"
  Machine :: Machine
  IBMPowerVSMachine :: IBMPowerVSMachine

text \<open>
  The two functions of the Go standard library that \<^verbatim>\<open>CreateMachine\<close> relies on,
  \<^verbatim>\<open>strconv.ParseFloat(s, 64)\<close> and \<^verbatim>\<open>base64.StdEncoding.EncodeToString\<close>, are parameters of
  the methods; \<open>go_stdlib\<close> below is the library itself.
\<close>

record 'f stdlib =
  ParseFloat :: "string \<Rightarrow> 'f \<times> error option"
  EncodeToString :: "string \<Rightarrow> string"

subsection \<open>Instance\<close>

definition ensureInstanceUnique ::
  "'f PowerVSMachineScope \<Rightarrow> string
     \<Rightarrow> ('f pvs_call list, PVMInstanceReference option \<times> error option) go" where
  "ensureInstanceUnique m instanceName =
     (let sid = ServiceInstanceID (machine_Spec (IBMPowerVSMachine m))
      in andThen (call (Call_InstanceGetAll sid) (\<lambda>tr. InstanceClient_GetAll (IBMPowerVSClient m) tr sid))
           (\<lambda>(instances, err).
              if err \<noteq> None then ret (None, err)
              else andThen (deref instances) (\<lambda>PvmInstances.
                case rangeFirst (\<lambda>ins. Option.bind ins pvm_ServerName) instanceName PvmInstances of
                  Panic \<Rightarrow> panic
                | Ret (Some ins) \<Rightarrow> ret (ins, None)
                | Ret None \<Rightarrow> ret (None, None))))"

definition GetBootstrapData ::
  "'f stdlib \<Rightarrow> 'f PowerVSMachineScope \<Rightarrow> ('f pvs_call list, string \<times> error option) go" where
  "GetBootstrapData lib m =
     (case DataSecretName (Machine m) of
        None \<Rightarrow>
          ret ([], Some (Err
            ''error retrieving bootstrap data: linked Machine's bootstrap.dataSecretName is nil''))
      | Some secretName \<Rightarrow>
          andThen (call (Call_SecretGet (Namespace (Machine m)) secretName)
                     (\<lambda>tr. client_Get m tr (Namespace (Machine m)) secretName)) (\<lambda>(secret, err).
            case err of
              Some e \<Rightarrow>
                ret ([], Some (Wrap e (''failed to retrieve bootstrap data secret for IBMVPCMachine ''
                                         @ Namespace (Machine m) @ ''/'' @ owner_Name (Machine m))))
            | None \<Rightarrow>
                (case Data secret ''value'' of
                   None \<Rightarrow>
                     ret ([], Some (Err ''error retrieving bootstrap data: secret value key is missing''))
                 | Some v \<Rightarrow> ret (EncodeToString lib v, None))))"

definition GetImages ::
  "'f PowerVSMachineScope
     \<Rightarrow> ('f pvs_call list, ImageReference option list option \<times> error option) go" where
  "GetImages m =
     (let sid = ServiceInstanceID (machine_Spec (IBMPowerVSMachine m))
      in call (Call_ImageGetAll sid) (\<lambda>tr. ImageClient_GetAll (IBMPowerVSClient m) tr sid))"

text \<open>
  The log line written on a match dereferences the matching entry's identifier
  (\<^verbatim>\<open>*img.ImageID\<close>, \<^verbatim>\<open>*nw.NetworkID\<close>); logging has no other effect and is not modelled.
\<close>

definition getImageID ::
  "IBMPowerVSResourceReference \<Rightarrow> 'f PowerVSMachineScope
     \<Rightarrow> ('f pvs_call list, string option \<times> error option) go" where
  "getImageID imageRef m =
     (if ref_ID imageRef \<noteq> None then ret (ref_ID imageRef, None)
      else case ref_Name imageRef of
        Some name \<Rightarrow>
          andThen (GetImages m) (\<lambda>(images, err).
            if err \<noteq> None then ret (None, err)
            else andThen (deref images) (\<lambda>Images.
              case rangeFirst (\<lambda>img. Option.bind img img_Name) name Images of
                Panic \<Rightarrow> panic
              | Ret (Some img) \<Rightarrow>
                  andThen (deref img) (\<lambda>i.
                  andThen (deref (img_ImageID i)) (\<lambda>_. ret (img_ImageID i, None)))
              | Ret None \<Rightarrow> ret (None, Some (Err ''failed to find an image ID''))))
      | None \<Rightarrow> ret (None, Some (Err ''both ID and Name can't be nil'')))"

definition GetNetworks ::
  "'f PowerVSMachineScope
     \<Rightarrow> ('f pvs_call list, NetworkReference option list option \<times> error option) go" where
  "GetNetworks m =
     (let sid = ServiceInstanceID (machine_Spec (IBMPowerVSMachine m))
      in andThen (call (Call_PcloudNetworksGetall sid)
                    (\<lambda>tr. PcloudNetworksGetall (IBMPowerVSClient m) tr sid))
           (\<lambda>(resp, err).
              if err \<noteq> None then ret (None, err)
              else andThen (deref resp) (\<lambda>r.
                if Payload r = None then ret (None, err) else ret (Payload r, None))))"

definition getNetworkID ::
  "IBMPowerVSResourceReference \<Rightarrow> 'f PowerVSMachineScope
     \<Rightarrow> ('f pvs_call list, string option \<times> error option) go" where
  "getNetworkID network m =
     (if ref_ID network \<noteq> None then ret (ref_ID network, None)
      else case ref_Name network of
        Some name \<Rightarrow>
          andThen (GetNetworks m) (\<lambda>(networks, err).
            if err \<noteq> None then ret (None, err)
            else andThen (deref networks) (\<lambda>Networks.
              case rangeFirst (\<lambda>nw. Option.bind nw nw_Name) name Networks of
                Panic \<Rightarrow> panic
              | Ret (Some nw) \<Rightarrow>
                  andThen (deref nw) (\<lambda>n.
                  andThen (deref (nw_NetworkID n)) (\<lambda>_. ret (nw_NetworkID n, None)))
              | Ret None \<Rightarrow> ret (None, Some (Err ''failed to find a network ID''))))
      | None \<Rightarrow> ret (None, Some (Err ''both ID and Name can't be nil'')))"

text \<open>
  \<^verbatim>\<open>CreateMachine\<close> in the order of its statements: the instance scan, the bootstrap data,
  the two numeric fields, the image, the network, the create call, whose first result is
  assigned to the blank identifier.
\<close>

definition CreateMachine ::
  "'f stdlib \<Rightarrow> 'f PowerVSMachineScope
     \<Rightarrow> ('f pvs_call list, PVMInstanceReference option \<times> error option) go" where
  "CreateMachine lib m =
     (let s = machine_Spec (IBMPowerVSMachine m)
      in andThen (ensureInstanceUnique m (machine_Name (IBMPowerVSMachine m))) (\<lambda>(instanceReply, err).
         if err \<noteq> None then ret (None, err)
         else if instanceReply \<noteq> None then ret (instanceReply, None)
         else andThen (GetBootstrapData lib m) (\<lambda>(cloudInitData, err).
           if err \<noteq> None then ret (None, err)
           else case ParseFloat lib (Memory s) of
             (_, Some _) \<Rightarrow>
               ret (None, Some (Err (''failed to convert memory('' @ Memory s @ '') to float64'')))
           | (memory, None) \<Rightarrow>
           (case ParseFloat lib (Processors s) of
             (_, Some _) \<Rightarrow>
               ret (None, Some (Err (''failed to convert Processors('' @ Processors s @ '') to float64'')))
           | (cores, None) \<Rightarrow>
           andThen (getImageID (spec_Image s) m) (\<lambda>(imageID, err).
             case err of
               Some e \<Rightarrow> ret (None, Some (Err (''error getting image ID: '' @ Error e)))
             | None \<Rightarrow>
           andThen (getNetworkID (spec_Network s) m) (\<lambda>(networkID, err).
             case err of
               Some e \<Rightarrow> ret (None, Some (Err (''error getting network ID: '' @ Error e)))
             | None \<Rightarrow>
               let body = \<lparr> pic_ImageID = imageID, pic_KeyPairName = SSHKey s,
                            pic_Networks = [networkID],
                            pic_ServerName = machine_Name (IBMPowerVSMachine m),
                            pic_Memory = memory, pic_Processors = cores,
                            pic_ProcType = ProcType s, pic_SysType = SysType s,
                            pic_UserData = cloudInitData \<rparr>
               in andThen (call (Call_InstanceCreate body (ServiceInstanceID s))
                             (\<lambda>tr. InstanceClient_Create (IBMPowerVSClient m) tr body (ServiceInstanceID s)))
                    (\<lambda>(_, err). if err \<noteq> None then ret (None, err) else ret (None, None))))))))"

definition DeleteMachine :: "'f PowerVSMachineScope \<Rightarrow> ('f pvs_call list, error option) go" where
  "DeleteMachine m =
     (let iid = InstanceID (machine_Status (IBMPowerVSMachine m));
          sid = ServiceInstanceID (machine_Spec (IBMPowerVSMachine m))
      in call (Call_InstanceDelete iid sid) (\<lambda>tr. InstanceClient_Delete (IBMPowerVSClient m) tr iid sid))"

section \<open>The Go standard library as the program runs it\<close>

text \<open>
  \<^verbatim>\<open>strconv.ParseFloat(s, 64)\<close> and \<^verbatim>\<open>base64.StdEncoding.EncodeToString\<close> belong to the Go
  standard library, not to the repository. They are written out here after the library
  (package \<^verbatim>\<open>strconv\<close>, file \<^verbatim>\<open>atof.go\<close>, as of the Go 1.16 the module asks for; RFC 4648
  for the encoding), so that \<open>go_stdlib\<close> is the library the program runs with.

  A \<^verbatim>\<open>float64\<close> is a sign, a magnitude \<open>m * 2 ^ e\<close> in the form IEEE 754 stores it
  (\<open>m < 2 ^ 53\<close>, \<open>- 1074 \<le> e \<le> 971\<close>, and \<open>2 ^ 52 \<le> m\<close> unless \<open>e = - 1074\<close>), an
  infinity or NaN. So 8.0 is \<open>Finite False (2 ^ 52) (- 49)\<close> and 0.25 is
  \<open>Finite False (2 ^ 52) (- 54)\<close>.
\<close>

datatype float64 = Finite bool nat int | Inf bool | NaN

definition float64_value :: "float64 \<Rightarrow> real option" where
  "float64_value f =
     (case f of
        Finite negative m e \<Rightarrow>
          Some ((if negative then - 1 else 1)
                * (if 0 \<le> e then real m * 2 ^ nat e else real m / 2 ^ nat (- e)))
      | Inf negative \<Rightarrow> None
      | NaN \<Rightarrow> None)"

definition byte :: "char \<Rightarrow> nat" where
  "byte c = of_char c"

definition isDigit :: "char \<Rightarrow> bool" where
  "isDigit c = (48 \<le> byte c \<and> byte c \<le> 57)"

text \<open>\<^verbatim>\<open>lower(c)\<close> is \<^verbatim>\<open>c | ('x' - 'X')\<close>: bit 5 set. The codes 97 to 102 are \<open>a\<close> to \<open>f\<close>,
  101 is \<open>e\<close>, 112 is \<open>p\<close>, 120 is \<open>x\<close>, 98 is \<open>b\<close>, 111 is \<open>o\<close>.\<close>

definition lower :: "char \<Rightarrow> nat" where
  "lower c = (if (byte c div 32) mod 2 = 0 then byte c + 32 else byte c)"

definition asciiLower :: "char \<Rightarrow> char" where
  "asciiLower c = (if 65 \<le> byte c \<and> byte c \<le> 90 then char_of (byte c + 32) else c)"

text \<open>
  \<^verbatim>\<open>special\<close>: the whole string is, letter case aside, an optionally signed \<open>inf\<close> or
  \<open>infinity\<close>, or an unsigned \<open>nan\<close>. (The library matches a prefix and \<^verbatim>\<open>ParseFloat\<close>
  then rejects what is left over.)
\<close>

definition special :: "string \<Rightarrow> float64 option" where
  "special s =
     (let t = map asciiLower s
      in if t = ''inf'' \<or> t = ''infinity'' \<or> t = ''+inf'' \<or> t = ''+infinity'' then Some (Inf False)
         else if t = ''-inf'' \<or> t = ''-infinity'' then Some (Inf True)
         else if t = ''nan'' then Some NaN
         else None)"

text \<open>
  \<^verbatim>\<open>readFloat\<close>: sign, optional \<open>0x\<close>, the digit loop, the exponent. The library keeps
  the first 19 (16) digits and a truncation flag, and reads the rest again on its slow
  path; since its result is the correctly rounded one, the digit loop here keeps every
  digit: \<open>mantissa\<close> is the number the digits spell, \<open>fraction_digits\<close> counts those after
  the point.
\<close>

record mantissa_scan =
  sawdot :: bool
  sawdigits :: bool
  underscores :: bool
  mantissa :: nat
  fraction_digits :: nat

fun readMantissa :: "bool \<Rightarrow> mantissa_scan \<Rightarrow> string \<Rightarrow> mantissa_scan \<times> string" where
  "readMantissa hexadecimal st [] = (st, [])"
| "readMantissa hexadecimal st (c # cs) =
     (if c = CHR ''_'' then readMantissa hexadecimal (st\<lparr> underscores := True \<rparr>) cs
      else if c = CHR ''.'' then
        (if sawdot st then (st, c # cs) else readMantissa hexadecimal (st\<lparr> sawdot := True \<rparr>) cs)
      else if isDigit c then
        readMantissa hexadecimal
          (st\<lparr> sawdigits := True,
               mantissa := mantissa st * (if hexadecimal then 16 else 10) + (byte c - 48),
               fraction_digits := (if sawdot st then Suc (fraction_digits st) else fraction_digits st) \<rparr>)
          cs
      else if hexadecimal \<and> 97 \<le> lower c \<and> lower c \<le> 102 then
        readMantissa hexadecimal
          (st\<lparr> sawdigits := True,
               mantissa := mantissa st * 16 + (lower c - 97 + 10),
               fraction_digits := (if sawdot st then Suc (fraction_digits st) else fraction_digits st) \<rparr>)
          cs
      else (st, c # cs))"

text \<open>The exponent's digits; the library stops accumulating at 10000.\<close>

fun readExponent :: "nat \<Rightarrow> bool \<Rightarrow> string \<Rightarrow> nat \<times> bool \<times> string" where
  "readExponent e u [] = (e, u, [])"
| "readExponent e u (c # cs) =
     (if isDigit c then readExponent (if e < 10000 then e * 10 + (byte c - 48) else e) u cs
      else if c = CHR ''_'' then readExponent e True cs
      else (e, u, c # cs))"

text \<open>\<^verbatim>\<open>underscoreOK\<close>: an underscore stands between digits, or between a base prefix and
  a digit.\<close>

datatype saw = Beginning | Digit | Underscore | Other

fun underscoreLoop :: "bool \<Rightarrow> saw \<Rightarrow> string \<Rightarrow> bool" where
  "underscoreLoop hexadecimal sw [] = (sw \<noteq> Underscore)"
| "underscoreLoop hexadecimal sw (c # cs) =
     (if isDigit c \<or> (hexadecimal \<and> 97 \<le> lower c \<and> lower c \<le> 102)
      then underscoreLoop hexadecimal Digit cs
      else if c = CHR ''_'' then (if sw \<noteq> Digit then False else underscoreLoop hexadecimal Underscore cs)
      else if sw = Underscore then False
      else underscoreLoop hexadecimal Other cs)"

definition underscoreOK :: "string \<Rightarrow> bool" where
  "underscoreOK s =
     (let s1 = (case s of c # cs \<Rightarrow> if c = CHR ''-'' \<or> c = CHR ''+'' then cs else s | [] \<Rightarrow> s)
      in case s1 of
           c0 # c1 # cs \<Rightarrow>
             if c0 = CHR ''0'' \<and> (lower c1 = 98 \<or> lower c1 = 111 \<or> lower c1 = 120)
             then underscoreLoop (lower c1 = 120) Digit cs
             else underscoreLoop False Beginning s1
         | _ \<Rightarrow> underscoreLoop False Beginning s1)"

text \<open>
  What \<^verbatim>\<open>readFloat\<close> hands back when it accepts a prefix of the string: the value read is
  \<open>rd_digits * 10 ^ rd_exponent\<close> (\<open>rd_digits * 2 ^ rd_exponent\<close> for a hexadecimal
  mantissa), and \<open>rd_rest\<close> is what it did not read.
\<close>

record float_reading =
  rd_neg :: bool
  rd_hex :: bool
  rd_digits :: nat
  rd_exponent :: int
  rd_rest :: string

definition readFloat :: "string \<Rightarrow> float_reading option" where
  "readFloat s =
     (case s of
        [] \<Rightarrow> None
      | c # cs \<Rightarrow>
          let negative = (c = CHR ''-'');
              s1 = (if c = CHR ''+'' \<or> c = CHR ''-'' then cs else s);
              hexadecimal = (case s1 of c0 # c1 # _ # _ \<Rightarrow> c0 = CHR ''0'' \<and> lower c1 = 120 | _ \<Rightarrow> False);
              (st, r) = readMantissa hexadecimal
                          \<lparr> sawdot = False, sawdigits = False, underscores = False,
                            mantissa = 0, fraction_digits = 0 \<rparr>
                          (if hexadecimal then drop 2 s1 else s1);
              scale = (if hexadecimal then 4 * int (fraction_digits st) else int (fraction_digits st));
              finish = (\<lambda>e u r'.
                 if u \<and> \<not> underscoreOK (take (length s - length r') s) then None
                 else Some \<lparr> rd_neg = negative, rd_hex = hexadecimal, rd_digits = mantissa st,
                             rd_exponent = e - scale, rd_rest = r' \<rparr>)
          in if \<not> sawdigits st then None
             else case r of
               x # xs \<Rightarrow>
                 if lower x = (if hexadecimal then 112 else 101) then
                   (case xs of
                      [] \<Rightarrow> None
                    | y # ys \<Rightarrow>
                        let esign = (if y = CHR ''-'' then - 1 else 1);
                            ds = (if y = CHR ''+'' \<or> y = CHR ''-'' then ys else xs)
                        in case ds of
                             [] \<Rightarrow> None
                           | d # _ \<Rightarrow>
                               if \<not> isDigit d then None
                               else case readExponent 0 (underscores st) ds of
                                      (e, u, r') \<Rightarrow> finish (esign * int e) u r')
                 else if hexadecimal then None
                 else finish 0 (underscores st) r
             | [] \<Rightarrow> if hexadecimal then None else finish 0 (underscores st) r)"

text \<open>
  The nearest \<^verbatim>\<open>float64\<close> to \<open>num / den\<close>, ties to the even mantissa (IEEE 754 unbiased
  rounding, which is what the library promises): \<open>e2\<close> is the binary exponent of the
  value, \<open>p\<close> the weight of the last mantissa bit, \<open>q\<close> and \<open>r\<close> the value in units of
  \<open>2 ^ p\<close> and what is left. The flag says that the result is beyond the largest
  \<^verbatim>\<open>float64\<close>.
\<close>

fun bitLen :: "nat \<Rightarrow> nat" where
  "bitLen n = (if n = 0 then 0 else Suc (bitLen (n div 2)))"

declare bitLen.simps [simp del]

definition nearest64 :: "bool \<Rightarrow> nat \<Rightarrow> nat \<Rightarrow> float64 \<times> bool" where
  "nearest64 negative num den =
     (if num = 0 then (Finite negative 0 (- 1074), False)
      else
        let d = int (bitLen num) - int (bitLen den);
            e2 = (if (if 0 \<le> d then den * 2 ^ nat d \<le> num else den \<le> num * 2 ^ nat (- d))
                  then d else d - 1);
            p = max e2 (- 1022) - 52;
            n = (if p < 0 then num * 2 ^ nat (- p) else num);
            k = (if p < 0 then den else den * 2 ^ nat p);
            q = n div k;
            r = n mod k;
            m = (if 2 * r < k then q else if k < 2 * r then q + 1 else if even q then q else q + 1);
            m' = (if m = 2 ^ 53 then 2 ^ 52 else m);
            p' = (if m = 2 ^ 53 then p + 1 else p)
        in if 971 < p' then (Inf negative, True) else (Finite negative m' p', False))"

text \<open>
  \<^verbatim>\<open>ParseFloat\<close> for 64 bits. A string that is not read to its end is a syntax error
  with result 0; a value out of range is a range error with an infinity. The message
  of a \<^verbatim>\<open>NumError\<close> quotes the string; \<open>quote\<close> leaves out the escapes of
  \<^verbatim>\<open>strconv.Quote\<close>, and no caller in the repository reads the message.
\<close>

definition quote :: "string \<Rightarrow> string" where
  "quote s = CHR 0x22 # s @ [CHR 0x22]"

definition ParseFloat64 :: "string \<Rightarrow> float64 \<times> error option" where
  "ParseFloat64 s =
     (case special s of
        Some f \<Rightarrow> (f, None)
      | None \<Rightarrow>
          (case readFloat s of
             None \<Rightarrow>
               (Finite False 0 (- 1074),
                Some (Err (''strconv.ParseFloat: parsing '' @ quote s @ '': invalid syntax'')))
           | Some rd \<Rightarrow>
               if rd_rest rd \<noteq> [] then
                 (Finite False 0 (- 1074),
                  Some (Err (''strconv.ParseFloat: parsing '' @ quote s @ '': invalid syntax'')))
               else
                 let b = (if rd_hex rd then 2 else 10);
                     num = (if 0 \<le> rd_exponent rd then rd_digits rd * b ^ nat (rd_exponent rd)
                            else rd_digits rd);
                     den = (if 0 \<le> rd_exponent rd then 1 else b ^ nat (- rd_exponent rd))
                 in case nearest64 (rd_neg rd) num den of
                      (f, True) \<Rightarrow>
                        (f, Some (Err (''strconv.ParseFloat: parsing '' @ quote s
                                       @ '': value out of range'')))
                    | (f, False) \<Rightarrow> (f, None)))"

text \<open>The standard base64 encoding: three bytes give four letters, with \<open>=\<close> padding.\<close>

definition base64_alphabet :: string where
  "base64_alphabet = ''ABCDEFGHIJKLMNOPQRSTUVWXYZabcdefghijklmnopqrstuvwxyz0123456789+/''"

fun base64_EncodeToString :: "string \<Rightarrow> string" where
  "base64_EncodeToString [] = []"
| "base64_EncodeToString [a] =
     [base64_alphabet ! (byte a div 4), base64_alphabet ! ((byte a mod 4) * 16), CHR ''='', CHR ''='']"
| "base64_EncodeToString [a, b] =
     [base64_alphabet ! (byte a div 4), base64_alphabet ! ((byte a mod 4) * 16 + byte b div 16),
      base64_alphabet ! ((byte b mod 16) * 4), CHR ''='']"
| "base64_EncodeToString (a # b # c # tail) =
     [base64_alphabet ! (byte a div 4), base64_alphabet ! ((byte a mod 4) * 16 + byte b div 16),
      base64_alphabet ! ((byte b mod 16) * 4 + byte c div 64), base64_alphabet ! (byte c mod 64)]
     @ base64_EncodeToString tail"

declare base64_EncodeToString.simps [simp del]

definition go_stdlib :: "float64 stdlib" where
  "go_stdlib = \<lparr> ParseFloat = ParseFloat64, EncodeToString = base64_EncodeToString \<rparr>"

section \<open>Counting create calls\<close>

definition creates_vpc :: "string \<Rightarrow> vpc_call \<Rightarrow> bool" where
  "creates_vpc name c = (case c of Call_CreateVPC rg n \<Rightarrow> n = name | _ \<Rightarrow> False)"

definition creates_instance :: "string \<Rightarrow> 'f pvs_call \<Rightarrow> bool" where
  "creates_instance name c =
     (case c of Call_InstanceCreate body sid \<Rightarrow> pic_ServerName body = name | _ \<Rightarrow> False)"

section \<open>Scenarios\<close>

text \<open>
  An append-only account for the worked scenarios: no call fails, a create call answers
  with the new resource, and a listing shows what the account held at the start
  followed by what the history has created since. Single operations are overridden
  where a scenario needs a failure or a particular listing.
\<close>

definition new_vpc :: "string \<Rightarrow> VPC" where
  "new_vpc name =
     \<lparr> vpc_ID = Some (''vpc-'' @ name), vpc_Name = Some name,
       vpc_DefaultSecurityGroup = Some \<lparr> sg_ID = Some (''sg-'' @ name) \<rparr> \<rparr>"

definition created_vpcs :: "vpc_call list \<Rightarrow> VPC list" where
  "created_vpcs tr =
     concat (map (\<lambda>c. case c of Call_CreateVPC rg name \<Rightarrow> [new_vpc name] | _ \<Rightarrow> []) tr)"

definition account :: "VPC list \<Rightarrow> VPCService" where
  "account held =
     \<lparr> svc_ListVpcs = (\<lambda>tr. (Some (held @ created_vpcs tr), None)),
       svc_CreateVPC = (\<lambda>tr rg name. (Some (new_vpc name), None)),
       svc_CreateSecurityGroupRule = (\<lambda>tr sg direction protocol version. None),
       svc_DeleteVPC = (\<lambda>tr vpc. None),
       svc_ListFloatingIps = (\<lambda>tr. (Some [], None)),
       svc_CreateFloatingIP =
         (\<lambda>tr name rg zone. (Some \<lparr> fip_ID = Some (''fip-'' @ name), fip_Name = Some name \<rparr>, None)),
       svc_DeleteFloatingIP = (\<lambda>tr fip. None),
       svc_ListSubnets = (\<lambda>tr. (Some [], None)),
       svc_ListVPCAddressPrefixes =
         (\<lambda>tr vpc. (Some [\<lparr> ap_CIDR = Some ''10.240.0.0/18'',
                               ap_Zone = Some \<lparr> zone_Name = Some ''us-south-1'' \<rparr> \<rparr>], None)),
       svc_CreateSubnet =
         (\<lambda>tr cidr name vpc zone.
            (Some \<lparr> subnet_ID = Some (''subnet-'' @ name), subnet_Name = Some name \<rparr>, None)),
       svc_CreatePublicGateway = (\<lambda>tr vpc zone. (Some \<lparr> pgw_ID = Some ''pgw-1'' \<rparr>, None)),
       svc_SetSubnetPublicGateway = (\<lambda>tr subnet gw. (Some \<lparr> pgw_ID = Some gw \<rparr>, None)),
       svc_GetSubnetPublicGateway = (\<lambda>tr subnet. (Some \<lparr> pgw_ID = Some ''pgw-1'' \<rparr>, None)),
       svc_UnsetSubnetPublicGateway = (\<lambda>tr subnet. None),
       svc_DeletePublicGateway = (\<lambda>tr gw. None),
       svc_DeleteSubnet = (\<lambda>tr subnet. None) \<rparr>"

text \<open>
  The cluster \<open>demo\<close> asks for the network \<open>demo-vpc\<close>; the scenarios vary the recorded
  floating-IP identifier.
\<close>

definition demo_cluster :: "string option \<Rightarrow> IBMVPCCluster" where
  "demo_cluster fip =
     \<lparr> cluster_Name = ''demo'',
       Spec = \<lparr> spec_VPC = ''demo-vpc'', spec_ResourceGroup = ''rg-1'', spec_Zone = ''us-south-1'' \<rparr>,
       Status = \<lparr> status_VPC = \<lparr> status_vpc_ID = ''vpc-demo-vpc'' \<rparr>,
                  status_Subnet = \<lparr> status_subnet_ID = Some ''subnet-demo-subnet'' \<rparr>,
                  status_APIEndpoint = \<lparr> FIPID = fip \<rparr> \<rparr> \<rparr>"

definition demo_scope :: "VPCService \<Rightarrow> ClusterScope" where
  "demo_scope svc = \<lparr> VPCService = svc, IBMVPCCluster = demo_cluster (Some []) \<rparr>"

text \<open>
  The same for PowerVS. The catalogue holds one image and one network; the scenarios vary
  the instances the account holds and the memory and processor strings, and run with
  \<open>go_stdlib\<close>.
\<close>

definition new_instance :: "string \<Rightarrow> PVMInstanceReference" where
  "new_instance name = \<lparr> pvm_PvmInstanceID = Some (''pvm-'' @ name), pvm_ServerName = Some name \<rparr>"

definition created_instances :: "'f pvs_call list \<Rightarrow> PVMInstanceReference option list" where
  "created_instances tr =
     concat (map (\<lambda>c. case c of
                    Call_InstanceCreate body sid \<Rightarrow> [Some (new_instance (pic_ServerName body))]
                  | _ \<Rightarrow> []) tr)"

definition powervs :: "PVMInstanceReference option list \<Rightarrow> 'f IBMPowerVSClient" where
  "powervs held =
     \<lparr> InstanceClient_GetAll = (\<lambda>tr sid. (Some (held @ created_instances tr), None)),
       InstanceClient_Create =
         (\<lambda>tr body sid. (Some [Some (new_instance (pic_ServerName body))], None)),
       InstanceClient_Delete = (\<lambda>tr iid sid. None),
       ImageClient_GetAll =
         (\<lambda>tr sid. (Some [Some \<lparr> img_ImageID = Some ''img-1'', img_Name = Some ''centos-8'' \<rparr>], None)),
       PcloudNetworksGetall =
         (\<lambda>tr sid. (Some \<lparr> Payload = Some [Some \<lparr> nw_NetworkID = Some ''net-1'',
                                                   nw_Name = Some ''capi-net'' \<rparr>] \<rparr>, None)) \<rparr>"

definition demo_machine :: "string \<Rightarrow> string \<Rightarrow> IBMPowerVSMachine" where
  "demo_machine memory processors =
     \<lparr> machine_Name = ''demo-0'',
       machine_Spec =
         \<lparr> ServiceInstanceID = ''svc-1'', SSHKey = ''key'',
           spec_Image = \<lparr> ref_ID = None, ref_Name = Some ''centos-8'' \<rparr>,
           SysType = ''s922'', ProcType = ''shared'', Processors = processors, Memory = memory,
           spec_Network = \<lparr> ref_ID = Some ''net-1'', ref_Name = None \<rparr> \<rparr>,
       machine_Status = \<lparr> InstanceID = [] \<rparr> \<rparr>"

definition machine_scope ::
  "PVMInstanceReference option list \<Rightarrow> string \<Rightarrow> string \<Rightarrow> float64 PowerVSMachineScope" where
  "machine_scope held memory processors =
     \<lparr> client_Get = (\<lambda>tr namespace name. (\<lparr> Data = [''value'' \<mapsto> ''#cloud-config''] \<rparr>, None)),
       IBMPowerVSClient = powervs held,
       Machine = \<lparr> Namespace = ''default'', owner_Name = ''demo-0'', DataSecretName = Some ''demo-0-bootstrap'' \<rparr>,
       IBMPowerVSMachine = demo_machine memory processors \<rparr>"

section \<open>Running the model\<close>

lemma ret_apply: "ret x s = (Ret x, s)"
  by (simp add: ret_def)

lemma panic_apply: "panic s = (Panic, s)"
  by (simp add: panic_def)

lemma call_apply: "call c respond tr = (Ret (respond tr), tr @ [c])"
  by (simp add: call_def)

lemma andThen_apply:
  "andThen m f s = (case m s of (Panic, s') \<Rightarrow> (Panic, s') | (Ret x, s') \<Rightarrow> f x s')"
  by (simp add: andThen_def)

lemma deref_Some: "deref (Some v) = ret v"
  by (simp add: deref_def)

lemma deref_None: "deref None = panic"
  by (simp add: deref_def)

lemmas go_simps = ret_apply panic_apply call_apply andThen_apply deref_Some deref_None

section \<open>The library on the strings of the scenarios\<close>

lemma special_none:
  "special ''8'' = None" "special ''0.25'' = None" "special ''abc'' = None"
  "special ''a quarter'' = None"
  by (simp_all add: special_def asciiLower_def byte_def Let_def)

lemma readFloat_8:
  "readFloat ''8'' =
     Some \<lparr> rd_neg = False, rd_hex = False, rd_digits = 8, rd_exponent = 0, rd_rest = [] \<rparr>"
  by (simp add: readFloat_def isDigit_def byte_def lower_def Let_def)

lemma readFloat_025:
  "readFloat ''0.25'' =
     Some \<lparr> rd_neg = False, rd_hex = False, rd_digits = 25, rd_exponent = - 2, rd_rest = [] \<rparr>"
  by (simp add: readFloat_def isDigit_def byte_def lower_def Let_def)

lemma readFloat_none: "readFloat ''abc'' = None" "readFloat ''a quarter'' = None"
  by (simp_all add: readFloat_def isDigit_def byte_def lower_def Let_def)

lemma nearest64_8: "nearest64 False 8 (Suc 0) = (Finite False 4503599627370496 (- 49), False)"
  by (simp add: nearest64_def bitLen.simps Let_def)

lemma nearest64_025: "nearest64 False 25 100 = (Finite False 4503599627370496 (- 54), False)"
  by (simp add: nearest64_def bitLen.simps Let_def)

lemma ParseFloat64_8: "ParseFloat64 ''8'' = (Finite False 4503599627370496 (- 49), None)"
  by (simp add: ParseFloat64_def special_none readFloat_8 nearest64_8)

lemma ParseFloat64_025: "ParseFloat64 ''0.25'' = (Finite False 4503599627370496 (- 54), None)"
  by (simp add: ParseFloat64_def special_none readFloat_025 nearest64_025)

lemma ParseFloat64_abc:
  "ParseFloat64 ''abc'' =
     (Finite False 0 (- 1074),
      Some (Err (''strconv.ParseFloat: parsing '' @ quote ''abc'' @ '': invalid syntax'')))"
  by (simp add: ParseFloat64_def special_none readFloat_none)

lemma ParseFloat64_a_quarter:
  "ParseFloat64 ''a quarter'' =
     (Finite False 0 (- 1074),
      Some (Err (''strconv.ParseFloat: parsing '' @ quote ''a quarter'' @ '': invalid syntax'')))"
  by (simp add: ParseFloat64_def special_none readFloat_none)

lemma float64_value_8: "float64_value (Finite False 4503599627370496 (- 49)) = Some 8"
  by (simp add: float64_value_def)

lemma float64_value_025: "float64_value (Finite False 4503599627370496 (- 54)) = Some (1 / 4)"
  by (simp add: float64_value_def)

lemma base64_cloud_config: "base64_EncodeToString ''#cloud-config'' = ''I2Nsb3VkLWNvbmZpZw==''"
  by (simp add: base64_EncodeToString.simps base64_alphabet_def byte_def)

lemmas scenario_defs =
  account_def demo_cluster_def demo_scope_def new_vpc_def created_vpcs_def
  powervs_def go_stdlib_def demo_machine_def machine_scope_def new_instance_def
  created_instances_def
  ParseFloat64_8 ParseFloat64_025 ParseFloat64_abc ParseFloat64_a_quarter base64_cloud_config

section \<open>The by-name scan\<close>

text \<open>
  The loop is \<open>find\<close> on the listing whenever it can read the names it needs, and a
  panic otherwise.
\<close>

lemma rangeFirst_eq:
  "rangeFirst name target xs =
     (if scannable name target xs then Ret (find (\<lambda>x. name x = Some target) xs) else Panic)"
  by (induction xs) (auto simp: scannable_def split: option.splits)

lemma rangeFirst_find:
  "scannable name target xs \<Longrightarrow> rangeFirst name target xs = Ret (find (\<lambda>x. name x = Some target) xs)"
  by (simp add: rangeFirst_eq)

lemma rangeFirst_absent:
  assumes "\<forall>x\<in>set xs. \<exists>n. name x = Some n \<and> n \<noteq> target"
  shows "rangeFirst name target xs = Ret None"
  using assms by (induction xs) auto

lemma ensureVPCUnique_listed:
  assumes "svc_ListVpcs (VPCService s) tr = (Some vpcs, None)"
    and "scannable vpc_Name vpcName vpcs"
  shows "ensureVPCUnique s vpcName tr =
           (Ret (find (\<lambda>v. vpc_Name v = Some vpcName) vpcs, None), tr @ [Call_ListVpcs])"
  using assms by (simp add: ensureVPCUnique_def go_simps rangeFirst_find)

lemma ensureFIPUnique_listed:
  assumes "svc_ListFloatingIps (VPCService s) tr = (Some fips, None)"
    and "scannable fip_Name fipName fips"
  shows "ensureFIPUnique s fipName tr =
           (Ret (find (\<lambda>f. fip_Name f = Some fipName) fips, None), tr @ [Call_ListFloatingIps])"
  using assms by (simp add: ensureFIPUnique_def go_simps rangeFirst_find)

lemma ensureInstanceUnique_listed:
  assumes "InstanceClient_GetAll (IBMPowerVSClient m) tr
             (ServiceInstanceID (machine_Spec (IBMPowerVSMachine m))) = (Some instances, None)"
    and "scannable (\<lambda>i. Option.bind i pvm_ServerName) name instances"
  shows "ensureInstanceUnique m name tr =
           (Ret (Option.bind (find (\<lambda>i. Option.bind i pvm_ServerName = Some name) instances) id, None),
            tr @ [Call_InstanceGetAll (ServiceInstanceID (machine_Spec (IBMPowerVSMachine m)))])"
  using assms
  by (simp add: ensureInstanceUnique_def go_simps rangeFirst_find Let_def split: option.splits)

text \<open>
  C8. A by-name existence scan (\<open>ensureVPCUnique\<close>, \<open>ensureFIPUnique\<close>) whose listing call
  succeeds returns the first resource, in listing order, whose name equals the target
  string exactly: what \<open>find\<close> returns for the test \<open>name = Some target\<close> on strings, which
  tells apart letters of different case and takes the earlier of two resources of the
  same name. When no name matches, \<open>find\<close> is \<open>None\<close> and the scan returns nil with a nil
  error. The scan issues the list call and nothing else.
\<close>

theorem ensure_unique_first_match:
  "(svc_ListVpcs (VPCService s) tr = (Some vpcs, None) \<and> scannable vpc_Name vpcName vpcs \<longrightarrow>
      ensureVPCUnique s vpcName tr =
        (Ret (find (\<lambda>v. vpc_Name v = Some vpcName) vpcs, None), tr @ [Call_ListVpcs]))
   \<and>
   (svc_ListFloatingIps (VPCService s) tr = (Some fips, None) \<and> scannable fip_Name fipName fips \<longrightarrow>
      ensureFIPUnique s fipName tr =
        (Ret (find (\<lambda>f. fip_Name f = Some fipName) fips, None), tr @ [Call_ListFloatingIps]))"
  by (simp add: ensureVPCUnique_listed ensureFIPUnique_listed)

theorem ensure_unique_first_match_witness:
  "ensureVPCUnique
     (demo_scope (account [\<lparr> vpc_ID = Some ''a'', vpc_Name = Some ''Demo-VPC'', vpc_DefaultSecurityGroup = None \<rparr>,
                           \<lparr> vpc_ID = Some ''b'', vpc_Name = Some ''demo-vpc'', vpc_DefaultSecurityGroup = None \<rparr>,
                           \<lparr> vpc_ID = Some ''c'', vpc_Name = Some ''demo-vpc'', vpc_DefaultSecurityGroup = None \<rparr>]))
     ''demo-vpc'' []
   = (Ret (Some \<lparr> vpc_ID = Some ''b'', vpc_Name = Some ''demo-vpc'', vpc_DefaultSecurityGroup = None \<rparr>, None),
      [Call_ListVpcs])
   \<and>
   ensureFIPUnique
     (demo_scope (account [\<lparr> vpc_ID = Some ''a'', vpc_Name = Some ''Demo-VPC'', vpc_DefaultSecurityGroup = None \<rparr>,
                           \<lparr> vpc_ID = Some ''b'', vpc_Name = Some ''demo-vpc'', vpc_DefaultSecurityGroup = None \<rparr>,
                           \<lparr> vpc_ID = Some ''c'', vpc_Name = Some ''demo-vpc'', vpc_DefaultSecurityGroup = None \<rparr>]))
     ''demo-control-plane'' []
   = (Ret (None, None), [Call_ListFloatingIps])"
  using ensure_unique_first_match
    [where s = "demo_scope (account
                  [\<lparr> vpc_ID = Some ''a'', vpc_Name = Some ''Demo-VPC'', vpc_DefaultSecurityGroup = None \<rparr>,
                   \<lparr> vpc_ID = Some ''b'', vpc_Name = Some ''demo-vpc'', vpc_DefaultSecurityGroup = None \<rparr>,
                   \<lparr> vpc_ID = Some ''c'', vpc_Name = Some ''demo-vpc'', vpc_DefaultSecurityGroup = None \<rparr>])"
       and tr = "[]" and vpcName = "''demo-vpc''" and fipName = "''demo-control-plane''"
       and fips = "[]"
       and vpcs = "[\<lparr> vpc_ID = Some ''a'', vpc_Name = Some ''Demo-VPC'', vpc_DefaultSecurityGroup = None \<rparr>,
                    \<lparr> vpc_ID = Some ''b'', vpc_Name = Some ''demo-vpc'', vpc_DefaultSecurityGroup = None \<rparr>,
                    \<lparr> vpc_ID = Some ''c'', vpc_Name = Some ''demo-vpc'', vpc_DefaultSecurityGroup = None \<rparr>]"]
  by (simp add: scenario_defs scannable_def)

section \<open>Floating-IP teardown\<close>

text \<open>
  C6. When the recorded floating-IP identifier is the empty string, \<open>DeleteFloatingIP\<close>
  issues no remote call and returns a nil error. When it is a non-empty string, it issues
  exactly one call, the delete of that identifier, and returns what the call returned.
\<close>

theorem DeleteFloatingIP_empty_id_is_noop:
  "(FIPID (status_APIEndpoint (Status (IBMVPCCluster s))) = Some [] \<longrightarrow>
      DeleteFloatingIP s tr = (Ret None, tr))
   \<and>
   (FIPID (status_APIEndpoint (Status (IBMVPCCluster s))) = Some fipID \<and> fipID \<noteq> [] \<longrightarrow>
      DeleteFloatingIP s tr =
        (Ret (svc_DeleteFloatingIP (VPCService s) tr fipID), tr @ [Call_DeleteFloatingIP fipID]))"
  by (simp add: DeleteFloatingIP_def go_simps)

theorem DeleteFloatingIP_empty_id_is_noop_witness:
  "DeleteFloatingIP \<lparr> VPCService = account [], IBMVPCCluster = demo_cluster (Some []) \<rparr> [] = (Ret None, [])
   \<and>
   DeleteFloatingIP \<lparr> VPCService = account [], IBMVPCCluster = demo_cluster (Some ''fip-1'') \<rparr> []
     = (Ret None, [Call_DeleteFloatingIP ''fip-1''])"
proof -
  have empty: "DeleteFloatingIP \<lparr> VPCService = account [], IBMVPCCluster = demo_cluster (Some []) \<rparr> []
                 = (Ret None, [])"
    using DeleteFloatingIP_empty_id_is_noop
            [where s = "\<lparr> VPCService = account [], IBMVPCCluster = demo_cluster (Some []) \<rparr>"
               and tr = "[]" and fipID = "''fip-1''"]
    by (simp add: scenario_defs)
  have recorded: "DeleteFloatingIP \<lparr> VPCService = account [], IBMVPCCluster = demo_cluster (Some ''fip-1'') \<rparr> []
                    = (Ret None, [Call_DeleteFloatingIP ''fip-1''])"
    using DeleteFloatingIP_empty_id_is_noop
            [where s = "\<lparr> VPCService = account [], IBMVPCCluster = demo_cluster (Some ''fip-1'') \<rparr>"
               and tr = "[]" and fipID = "''fip-1''"]
    by (simp add: scenario_defs)
  from empty recorded show ?thesis by (rule conjI)
qed

text \<open>
  C9. \<open>DeleteFloatingIP\<close> dereferences the recorded identifier before it tests it for
  emptiness. With a nil pointer it panics at once, having issued no call; with any
  non-nil pointer it returns, and for the empty string it returns a nil error.
\<close>

theorem DeleteFloatingIP_nil_id_panics:
  "(FIPID (status_APIEndpoint (Status (IBMVPCCluster s))) = None \<longrightarrow>
      DeleteFloatingIP s tr = (Panic, tr))
   \<and>
   (FIPID (status_APIEndpoint (Status (IBMVPCCluster s))) \<noteq> None \<longrightarrow>
      fst (DeleteFloatingIP s tr) \<noteq> Panic)
   \<and>
   (FIPID (status_APIEndpoint (Status (IBMVPCCluster s))) = Some [] \<longrightarrow>
      DeleteFloatingIP s tr = (Ret None, tr))"
  by (auto simp add: DeleteFloatingIP_def go_simps split: if_splits)

theorem DeleteFloatingIP_nil_id_panics_witness:
  "DeleteFloatingIP \<lparr> VPCService = account [], IBMVPCCluster = demo_cluster None \<rparr> [Call_ListVpcs]
     = (Panic, [Call_ListVpcs])
   \<and>
   fst (DeleteFloatingIP \<lparr> VPCService = account [], IBMVPCCluster = demo_cluster (Some ''fip-2'') \<rparr>
          [Call_ListVpcs]) \<noteq> Panic"
proof -
  have nil: "DeleteFloatingIP \<lparr> VPCService = account [], IBMVPCCluster = demo_cluster None \<rparr> [Call_ListVpcs]
               = (Panic, [Call_ListVpcs])"
    using DeleteFloatingIP_nil_id_panics
            [where s = "\<lparr> VPCService = account [], IBMVPCCluster = demo_cluster None \<rparr>"
               and tr = "[Call_ListVpcs]"]
    by (simp add: scenario_defs)
  have recorded:
    "fst (DeleteFloatingIP \<lparr> VPCService = account [], IBMVPCCluster = demo_cluster (Some ''fip-2'') \<rparr>
            [Call_ListVpcs]) \<noteq> Panic"
    using DeleteFloatingIP_nil_id_panics
            [where s = "\<lparr> VPCService = account [], IBMVPCCluster = demo_cluster (Some ''fip-2'') \<rparr>"
               and tr = "[Call_ListVpcs]"]
    by (simp add: scenario_defs)
  from nil recorded show ?thesis by (rule conjI)
qed

section \<open>Creating the network and the instance\<close>

lemma CreateVPC_adopts:
  assumes "svc_ListVpcs (VPCService s) tr = (Some vpcs, None)"
    and "scannable vpc_Name (spec_VPC (Spec (IBMVPCCluster s))) vpcs"
    and "find (\<lambda>v. vpc_Name v = Some (spec_VPC (Spec (IBMVPCCluster s)))) vpcs = Some v"
  shows "CreateVPC s tr = (Ret (Some v, None), tr @ [Call_ListVpcs])"
  using assms by (simp add: CreateVPC_def andThen_apply ret_apply ensureVPCUnique_listed)

lemma CreateVPC_one_create:
  "CreateVPC s tr = (r, tr') \<Longrightarrow>
   \<exists>calls. tr' = tr @ calls \<and> length (filter (creates_vpc name) calls) \<le> 1"
  by (auto simp add: CreateVPC_def ensureVPCUnique_def updateDefaultSG_def go_simps deref_def
      creates_vpc_def Let_def
      split: prod.splits res.splits option.splits if_splits)

lemma CreateMachine_adopts:
  assumes "InstanceClient_GetAll (IBMPowerVSClient m) tr
             (ServiceInstanceID (machine_Spec (IBMPowerVSMachine m))) = (Some instances, None)"
    and "scannable (\<lambda>i. Option.bind i pvm_ServerName) (machine_Name (IBMPowerVSMachine m)) instances"
    and "find (\<lambda>i. Option.bind i pvm_ServerName = Some (machine_Name (IBMPowerVSMachine m))) instances
           = Some (Some ins)"
  shows "CreateMachine lib m tr =
           (Ret (Some ins, None),
            tr @ [Call_InstanceGetAll (ServiceInstanceID (machine_Spec (IBMPowerVSMachine m)))])"
  using assms
  by (simp add: CreateMachine_def andThen_apply ret_apply ensureInstanceUnique_listed Let_def)

lemma ensureInstanceUnique_calls:
  "ensureInstanceUnique m n tr = (r, tr') \<Longrightarrow>
   tr' = tr @ [Call_InstanceGetAll (ServiceInstanceID (machine_Spec (IBMPowerVSMachine m)))]"
  by (auto simp add: ensureInstanceUnique_def go_simps deref_def Let_def
      split: prod.splits res.splits option.splits if_splits)

lemma GetBootstrapData_calls:
  "GetBootstrapData lib m tr = (r, tr') \<Longrightarrow>
   \<exists>calls. tr' = tr @ calls \<and> filter (creates_instance name) calls = []"
  by (auto simp add: GetBootstrapData_def go_simps creates_instance_def
      split: prod.splits res.splits option.splits if_splits)

lemma getImageID_calls:
  "getImageID ref m tr = (r, tr') \<Longrightarrow>
   \<exists>calls. tr' = tr @ calls \<and> filter (creates_instance name) calls = []"
  by (auto simp add: getImageID_def GetImages_def go_simps deref_def creates_instance_def Let_def
      split: prod.splits res.splits option.splits if_splits)

lemma getNetworkID_calls:
  "getNetworkID ref m tr = (r, tr') \<Longrightarrow>
   \<exists>calls. tr' = tr @ calls \<and> filter (creates_instance name) calls = []"
  by (auto simp add: getNetworkID_def GetNetworks_def go_simps deref_def creates_instance_def Let_def
      split: prod.splits res.splits option.splits if_splits)

lemma CreateMachine_one_create:
  "CreateMachine lib m tr = (r, tr') \<Longrightarrow>
   \<exists>calls. tr' = tr @ calls \<and> length (filter (creates_instance name) calls) \<le> 1"
  by (auto simp add: CreateMachine_def andThen_apply ret_apply call_apply Let_def creates_instance_def
      split: prod.splits res.splits option.splits if_splits
      dest!: ensureInstanceUnique_calls GetBootstrapData_calls[where name=name]
             getImageID_calls[where name=name] getNetworkID_calls[where name=name])

text \<open>
  C1. When the listing answered at history \<open>tr\<close> contains a resource named as the target
  (\<open>v\<close>, the first such), \<open>CreateVPC\<close> run at \<open>tr\<close> returns \<open>v\<close> with a nil error and issues
  the list call only, hence no create call; \<open>CreateMachine\<close> does the same with the
  instance listing. Therefore, if \<open>tr\<close> is the history a preceding invocation of the same
  operation left behind (started at \<open>tr0\<close>), the two invocations together have issued at
  most one create call for that name: the second invocation's scan finds the resource
  and creates nothing.
\<close>

theorem create_adopts_existing_resource:
  "(svc_ListVpcs (VPCService s) tr = (Some vpcs, None) \<and>
    scannable vpc_Name (spec_VPC (Spec (IBMVPCCluster s))) vpcs \<and>
    find (\<lambda>v. vpc_Name v = Some (spec_VPC (Spec (IBMVPCCluster s)))) vpcs = Some v \<longrightarrow>
      CreateVPC s tr = (Ret (Some v, None), tr @ [Call_ListVpcs]) \<and>
      (\<forall>tr0 r0. CreateVPC s tr0 = (r0, tr) \<longrightarrow>
         (\<exists>calls. tr @ [Call_ListVpcs] = tr0 @ calls \<and>
                  length (filter (creates_vpc (spec_VPC (Spec (IBMVPCCluster s)))) calls) \<le> 1)))
   \<and>
   (InstanceClient_GetAll (IBMPowerVSClient m) mtr
      (ServiceInstanceID (machine_Spec (IBMPowerVSMachine m))) = (Some instances, None) \<and>
    scannable (\<lambda>i. Option.bind i pvm_ServerName) (machine_Name (IBMPowerVSMachine m)) instances \<and>
    find (\<lambda>i. Option.bind i pvm_ServerName = Some (machine_Name (IBMPowerVSMachine m))) instances
      = Some (Some ins) \<longrightarrow>
      CreateMachine lib m mtr =
        (Ret (Some ins, None),
         mtr @ [Call_InstanceGetAll (ServiceInstanceID (machine_Spec (IBMPowerVSMachine m)))]) \<and>
      (\<forall>mtr0 r0. CreateMachine lib m mtr0 = (r0, mtr) \<longrightarrow>
         (\<exists>calls. mtr @ [Call_InstanceGetAll (ServiceInstanceID (machine_Spec (IBMPowerVSMachine m)))]
                    = mtr0 @ calls \<and>
                  length (filter (creates_instance (machine_Name (IBMPowerVSMachine m))) calls) \<le> 1)))"
proof (intro conjI impI allI)
  assume h: "svc_ListVpcs (VPCService s) tr = (Some vpcs, None) \<and>
    scannable vpc_Name (spec_VPC (Spec (IBMVPCCluster s))) vpcs \<and>
    find (\<lambda>v. vpc_Name v = Some (spec_VPC (Spec (IBMVPCCluster s)))) vpcs = Some v"
  then show "CreateVPC s tr = (Ret (Some v, None), tr @ [Call_ListVpcs])"
    by (simp add: CreateVPC_adopts)
next
  fix tr0 r0
  assume "CreateVPC s tr0 = (r0, tr)"
  from CreateVPC_one_create[OF this, of "spec_VPC (Spec (IBMVPCCluster s))"]
  obtain calls where "tr = tr0 @ calls"
    and "length (filter (creates_vpc (spec_VPC (Spec (IBMVPCCluster s)))) calls) \<le> 1"
    by blast
  then have "tr @ [Call_ListVpcs] = tr0 @ (calls @ [Call_ListVpcs]) \<and>
             length (filter (creates_vpc (spec_VPC (Spec (IBMVPCCluster s)))) (calls @ [Call_ListVpcs])) \<le> 1"
    by (simp add: creates_vpc_def)
  then show "\<exists>calls. tr @ [Call_ListVpcs] = tr0 @ calls \<and>
                  length (filter (creates_vpc (spec_VPC (Spec (IBMVPCCluster s)))) calls) \<le> 1"
    by blast
next
  assume h: "InstanceClient_GetAll (IBMPowerVSClient m) mtr
      (ServiceInstanceID (machine_Spec (IBMPowerVSMachine m))) = (Some instances, None) \<and>
    scannable (\<lambda>i. Option.bind i pvm_ServerName) (machine_Name (IBMPowerVSMachine m)) instances \<and>
    find (\<lambda>i. Option.bind i pvm_ServerName = Some (machine_Name (IBMPowerVSMachine m))) instances
      = Some (Some ins)"
  then show "CreateMachine lib m mtr =
        (Ret (Some ins, None),
         mtr @ [Call_InstanceGetAll (ServiceInstanceID (machine_Spec (IBMPowerVSMachine m)))])"
    by (simp add: CreateMachine_adopts)
next
  fix mtr0 r0
  let ?q = "Call_InstanceGetAll (ServiceInstanceID (machine_Spec (IBMPowerVSMachine m)))"
  assume "CreateMachine lib m mtr0 = (r0, mtr)"
  from CreateMachine_one_create[OF this, of "machine_Name (IBMPowerVSMachine m)"]
  obtain calls where "mtr = mtr0 @ calls"
    and "length (filter (creates_instance (machine_Name (IBMPowerVSMachine m))) calls) \<le> 1"
    by blast
  then have "mtr @ [?q] = mtr0 @ (calls @ [?q]) \<and>
             length (filter (creates_instance (machine_Name (IBMPowerVSMachine m))) (calls @ [?q])) \<le> 1"
    by (simp add: creates_instance_def)
  then show "\<exists>calls. mtr @ [?q] = mtr0 @ calls \<and>
                  length (filter (creates_instance (machine_Name (IBMPowerVSMachine m))) calls) \<le> 1"
    by blast
qed

theorem create_adopts_existing_resource_witness:
  "CreateVPC (demo_scope (account [])) []
     = (Ret (Some (new_vpc ''demo-vpc''), None),
        [Call_ListVpcs, Call_CreateVPC ''rg-1'' ''demo-vpc'',
         Call_CreateSecurityGroupRule ''sg-demo-vpc'' ''inbound'' ''all'' ''ipv4''])
   \<and>
   CreateVPC (demo_scope (account []))
       [Call_ListVpcs, Call_CreateVPC ''rg-1'' ''demo-vpc'',
        Call_CreateSecurityGroupRule ''sg-demo-vpc'' ''inbound'' ''all'' ''ipv4'']
     = (Ret (Some (new_vpc ''demo-vpc''), None),
        [Call_ListVpcs, Call_CreateVPC ''rg-1'' ''demo-vpc'',
         Call_CreateSecurityGroupRule ''sg-demo-vpc'' ''inbound'' ''all'' ''ipv4'', Call_ListVpcs])
   \<and>
   length (filter (creates_vpc ''demo-vpc'')
       [Call_ListVpcs, Call_CreateVPC ''rg-1'' ''demo-vpc'',
        Call_CreateSecurityGroupRule ''sg-demo-vpc'' ''inbound'' ''all'' ''ipv4'', Call_ListVpcs]) = 1
   \<and>
   CreateMachine go_stdlib (machine_scope [] ''8'' ''0.25'') []
     = (Ret (None, None),
        [Call_InstanceGetAll ''svc-1'', Call_SecretGet ''default'' ''demo-0-bootstrap'',
         Call_ImageGetAll ''svc-1'',
         Call_InstanceCreate
           \<lparr> pic_ImageID = Some ''img-1'', pic_KeyPairName = ''key'', pic_Networks = [Some ''net-1''],
             pic_ServerName = ''demo-0'', pic_Memory = Finite False 4503599627370496 (- 49),
             pic_Processors = Finite False 4503599627370496 (- 54),
             pic_ProcType = ''shared'', pic_SysType = ''s922'', pic_UserData = ''I2Nsb3VkLWNvbmZpZw=='' \<rparr>
           ''svc-1''])
   \<and>
   CreateMachine go_stdlib (machine_scope [] ''8'' ''0.25'')
       [Call_InstanceGetAll ''svc-1'', Call_SecretGet ''default'' ''demo-0-bootstrap'',
        Call_ImageGetAll ''svc-1'',
        Call_InstanceCreate
          \<lparr> pic_ImageID = Some ''img-1'', pic_KeyPairName = ''key'', pic_Networks = [Some ''net-1''],
            pic_ServerName = ''demo-0'', pic_Memory = Finite False 4503599627370496 (- 49),
             pic_Processors = Finite False 4503599627370496 (- 54),
            pic_ProcType = ''shared'', pic_SysType = ''s922'', pic_UserData = ''I2Nsb3VkLWNvbmZpZw=='' \<rparr>
          ''svc-1'']
     = (Ret (Some (new_instance ''demo-0''), None),
        [Call_InstanceGetAll ''svc-1'', Call_SecretGet ''default'' ''demo-0-bootstrap'',
         Call_ImageGetAll ''svc-1'',
         Call_InstanceCreate
           \<lparr> pic_ImageID = Some ''img-1'', pic_KeyPairName = ''key'', pic_Networks = [Some ''net-1''],
             pic_ServerName = ''demo-0'', pic_Memory = Finite False 4503599627370496 (- 49),
             pic_Processors = Finite False 4503599627370496 (- 54),
             pic_ProcType = ''shared'', pic_SysType = ''s922'', pic_UserData = ''I2Nsb3VkLWNvbmZpZw=='' \<rparr>
           ''svc-1'',
         Call_InstanceGetAll ''svc-1''])"
proof -
  let ?T = "[Call_ListVpcs, Call_CreateVPC ''rg-1'' ''demo-vpc'',
             Call_CreateSecurityGroupRule ''sg-demo-vpc'' ''inbound'' ''all'' ''ipv4'']"
  let ?M = "[Call_InstanceGetAll ''svc-1'', Call_SecretGet ''default'' ''demo-0-bootstrap'',
             Call_ImageGetAll ''svc-1'',
             Call_InstanceCreate
               \<lparr> pic_ImageID = Some ''img-1'', pic_KeyPairName = ''key'', pic_Networks = [Some ''net-1''],
                 pic_ServerName = ''demo-0'', pic_Memory = Finite False 4503599627370496 (- 49),
                 pic_Processors = Finite False 4503599627370496 (- 54),
                 pic_ProcType = ''shared'', pic_SysType = ''s922'', pic_UserData = ''I2Nsb3VkLWNvbmZpZw=='' \<rparr>
               ''svc-1'']"
  note twice = create_adopts_existing_resource
    [where s = "demo_scope (account [])" and tr = ?T
       and vpcs = "[new_vpc ''demo-vpc'']" and v = "new_vpc ''demo-vpc''"
       and lib = go_stdlib and m = "machine_scope [] ''8'' ''0.25''" and mtr = ?M
       and instances = "[Some (new_instance ''demo-0'')]" and ins = "new_instance ''demo-0''"]
  have vpc_first: "CreateVPC (demo_scope (account [])) [] = (Ret (Some (new_vpc ''demo-vpc''), None), ?T)"
    by (simp add: CreateVPC_def ensureVPCUnique_def updateDefaultSG_def go_simps scenario_defs Let_def)
  have vpc_second:
    "CreateVPC (demo_scope (account [])) ?T = (Ret (Some (new_vpc ''demo-vpc''), None), ?T @ [Call_ListVpcs])"
    using twice[THEN conjunct1] by (simp add: scenario_defs scannable_def)
  have vpc_count: "length (filter (creates_vpc ''demo-vpc'') (?T @ [Call_ListVpcs])) = 1"
    by (simp add: creates_vpc_def)
  have machine_first: "CreateMachine go_stdlib (machine_scope [] ''8'' ''0.25'') [] = (Ret (None, None), ?M)"
    by (simp add: CreateMachine_def ensureInstanceUnique_def GetBootstrapData_def getImageID_def
        GetImages_def getNetworkID_def go_simps scenario_defs Let_def)
  have machine_second:
    "CreateMachine go_stdlib (machine_scope [] ''8'' ''0.25'') ?M
       = (Ret (Some (new_instance ''demo-0''), None), ?M @ [Call_InstanceGetAll ''svc-1''])"
    using twice[THEN conjunct2] by (simp add: scenario_defs scannable_def)
  from vpc_first vpc_second vpc_count machine_first machine_second show ?thesis
    by simp
qed

text \<open>
  C5, as the code has it. When the listing shows no network of the target name and the
  remote create call succeeds, \<open>CreateVPC\<close> at once issues the rule call on the new
  network's default security group (inbound, all protocols, IPv4) as its next and last
  call. If that call fails, this invocation returns its error and a nil network; only if
  it succeeds does this invocation return the network. So the invocation that creates
  the network hands its caller no identifier to record unless the policy step has
  succeeded.
\<close>

theorem CreateVPC_applies_default_policy:
  assumes "svc_ListVpcs (VPCService s) tr = (Some vpcs, None)"
    and "\<forall>v\<in>set vpcs. \<exists>n. vpc_Name v = Some n \<and> n \<noteq> spec_VPC (Spec (IBMVPCCluster s))"
    and "svc_CreateVPC (VPCService s) (tr @ [Call_ListVpcs])
           (spec_ResourceGroup (Spec (IBMVPCCluster s))) (spec_VPC (Spec (IBMVPCCluster s)))
         = (Some vpc, None)"
    and "vpc_DefaultSecurityGroup vpc = Some sg"
    and "sg_ID sg = Some sgID"
  shows "CreateVPC s tr =
     (Ret (case svc_CreateSecurityGroupRule (VPCService s)
                  (tr @ [Call_ListVpcs,
                         Call_CreateVPC (spec_ResourceGroup (Spec (IBMVPCCluster s)))
                           (spec_VPC (Spec (IBMVPCCluster s)))])
                  sgID ''inbound'' ''all'' ''ipv4'' of
             None \<Rightarrow> (Some vpc, None)
           | Some e \<Rightarrow> (None, Some e)),
      tr @ [Call_ListVpcs,
            Call_CreateVPC (spec_ResourceGroup (Spec (IBMVPCCluster s))) (spec_VPC (Spec (IBMVPCCluster s))),
            Call_CreateSecurityGroupRule sgID ''inbound'' ''all'' ''ipv4''])"
proof -
  let ?name = "spec_VPC (Spec (IBMVPCCluster s))"
  from assms(2) have "rangeFirst vpc_Name ?name vpcs = Ret None"
    by (rule rangeFirst_absent)
  with assms(1) have "ensureVPCUnique s ?name tr = (Ret (None, None), tr @ [Call_ListVpcs])"
    by (simp add: ensureVPCUnique_def go_simps)
  with assms(3,4,5) show ?thesis
    by (simp add: CreateVPC_def go_simps updateDefaultSG_def Let_def split: option.splits)
qed

theorem CreateVPC_applies_default_policy_witness:
  "CreateVPC (demo_scope ((account [])
       \<lparr> svc_CreateSecurityGroupRule := (\<lambda>tr sg direction protocol version. Some (Err ''rule rejected'')) \<rparr>)) []
     = (Ret (None, Some (Err ''rule rejected'')),
        [Call_ListVpcs, Call_CreateVPC ''rg-1'' ''demo-vpc'',
         Call_CreateSecurityGroupRule ''sg-demo-vpc'' ''inbound'' ''all'' ''ipv4''])"
proof -
  let ?s = "demo_scope ((account [])
       \<lparr> svc_CreateSecurityGroupRule := (\<lambda>tr sg direction protocol version. Some (Err ''rule rejected'')) \<rparr>)"
  have listed: "svc_ListVpcs (VPCService ?s) [] = (Some [], None)"
    by (simp add: scenario_defs)
  have absent: "\<forall>v\<in>set []. \<exists>n. vpc_Name v = Some n \<and> n \<noteq> spec_VPC (Spec (IBMVPCCluster ?s))"
    by simp
  have created: "svc_CreateVPC (VPCService ?s) ([] @ [Call_ListVpcs])
                   (spec_ResourceGroup (Spec (IBMVPCCluster ?s))) (spec_VPC (Spec (IBMVPCCluster ?s)))
                 = (Some (new_vpc ''demo-vpc''), None)"
    by (simp add: scenario_defs)
  have sg: "vpc_DefaultSecurityGroup (new_vpc ''demo-vpc'') = Some \<lparr> sg_ID = Some ''sg-demo-vpc'' \<rparr>"
    by (simp add: scenario_defs)
  have sgid: "sg_ID \<lparr> sg_ID = Some ''sg-demo-vpc'' \<rparr> = Some ''sg-demo-vpc''"
    by simp
  from CreateVPC_applies_default_policy[OF listed absent created sg sgid]
  show ?thesis by (simp add: scenario_defs)
qed

text \<open>
  The claim as the specification words it fails in its conclusion. After the rule call
  has failed the network exists remotely, and the next invocation finds it by name and
  returns its reference with a nil error, having issued the list call only: the
  identifier reaches the caller although no rule call has succeeded.
\<close>

theorem CreateVPC_adopts_network_without_policy:
  "CreateVPC (demo_scope ((account [])
       \<lparr> svc_CreateSecurityGroupRule := (\<lambda>tr sg direction protocol version. Some (Err ''rules limit'')) \<rparr>)) []
     = (Ret (None, Some (Err ''rules limit'')),
        [Call_ListVpcs, Call_CreateVPC ''rg-1'' ''demo-vpc'',
         Call_CreateSecurityGroupRule ''sg-demo-vpc'' ''inbound'' ''all'' ''ipv4''])
   \<and>
   CreateVPC (demo_scope ((account [])
       \<lparr> svc_CreateSecurityGroupRule := (\<lambda>tr sg direction protocol version. Some (Err ''rules limit'')) \<rparr>))
       [Call_ListVpcs, Call_CreateVPC ''rg-1'' ''demo-vpc'',
        Call_CreateSecurityGroupRule ''sg-demo-vpc'' ''inbound'' ''all'' ''ipv4'']
     = (Ret (Some (new_vpc ''demo-vpc''), None),
        [Call_ListVpcs, Call_CreateVPC ''rg-1'' ''demo-vpc'',
         Call_CreateSecurityGroupRule ''sg-demo-vpc'' ''inbound'' ''all'' ''ipv4'', Call_ListVpcs])"
  by (simp add: CreateVPC_def ensureVPCUnique_def updateDefaultSG_def go_simps scenario_defs Let_def)

section \<open>Creating the subnet\<close>

text \<open>
  C2, as the code has it. Once the subnet scan has found nothing, the address prefix is
  resolved and the remote create call has returned a subnet and no error, a failure of
  the public-gateway create call is returned by \<open>CreateSubnet\<close> as its own error,
  unchanged, together with the reference of the subnet just created; no attach call is
  issued. When the gateway call returns no gateway and no error, \<open>CreateSubnet\<close> returns
  the subnet with a nil error: a missing gateway is not an error, a failed gateway
  creation is.
\<close>

theorem CreateSubnet_reports_gateway_failure:
  assumes "ensureSubnetUnique s (cluster_Name (IBMVPCCluster s) @ ''-subnet'') tr = (Ret (None, None), tr1)"
    and "getSubnetAddrPrefix s (status_vpc_ID (status_VPC (Status (IBMVPCCluster s))))
           (spec_Zone (Spec (IBMVPCCluster s))) tr1 = (Ret (cidr, None), tr2)"
    and "svc_CreateSubnet (VPCService s) tr2 cidr (cluster_Name (IBMVPCCluster s) @ ''-subnet'')
           (status_vpc_ID (status_VPC (Status (IBMVPCCluster s)))) (spec_Zone (Spec (IBMVPCCluster s)))
         = (Some sn, None)"
  shows "(svc_CreatePublicGateway (VPCService s)
            (tr2 @ [Call_CreateSubnet cidr (cluster_Name (IBMVPCCluster s) @ ''-subnet'')
                      (status_vpc_ID (status_VPC (Status (IBMVPCCluster s))))
                      (spec_Zone (Spec (IBMVPCCluster s)))])
            (status_vpc_ID (status_VPC (Status (IBMVPCCluster s)))) (spec_Zone (Spec (IBMVPCCluster s)))
          = (pgw, Some e) \<longrightarrow>
          CreateSubnet s tr =
            (Ret (Some sn, Some e),
             tr2 @ [Call_CreateSubnet cidr (cluster_Name (IBMVPCCluster s) @ ''-subnet'')
                      (status_vpc_ID (status_VPC (Status (IBMVPCCluster s))))
                      (spec_Zone (Spec (IBMVPCCluster s))),
                    Call_CreatePublicGateway (status_vpc_ID (status_VPC (Status (IBMVPCCluster s))))
                      (spec_Zone (Spec (IBMVPCCluster s)))]))
       \<and>
       (svc_CreatePublicGateway (VPCService s)
            (tr2 @ [Call_CreateSubnet cidr (cluster_Name (IBMVPCCluster s) @ ''-subnet'')
                      (status_vpc_ID (status_VPC (Status (IBMVPCCluster s))))
                      (spec_Zone (Spec (IBMVPCCluster s)))])
            (status_vpc_ID (status_VPC (Status (IBMVPCCluster s)))) (spec_Zone (Spec (IBMVPCCluster s)))
          = (None, None) \<longrightarrow>
          CreateSubnet s tr =
            (Ret (Some sn, None),
             tr2 @ [Call_CreateSubnet cidr (cluster_Name (IBMVPCCluster s) @ ''-subnet'')
                      (status_vpc_ID (status_VPC (Status (IBMVPCCluster s))))
                      (spec_Zone (Spec (IBMVPCCluster s))),
                    Call_CreatePublicGateway (status_vpc_ID (status_VPC (Status (IBMVPCCluster s))))
                      (spec_Zone (Spec (IBMVPCCluster s)))]))"
  using assms
  by (simp add: CreateSubnet_def createPublicGateWay_def go_simps Let_def)

theorem CreateSubnet_reports_gateway_failure_witness:
  "CreateSubnet (demo_scope ((account [])
       \<lparr> svc_CreatePublicGateway := (\<lambda>tr vpc zone. (None, None)) \<rparr>)) []
     = (Ret (Some \<lparr> subnet_ID = Some ''subnet-demo-subnet'', subnet_Name = Some ''demo-subnet'' \<rparr>, None),
        [Call_ListSubnets, Call_ListVPCAddressPrefixes ''vpc-demo-vpc'',
         Call_CreateSubnet ''10.240.0.0/18'' ''demo-subnet'' ''vpc-demo-vpc'' ''us-south-1'',
         Call_CreatePublicGateway ''vpc-demo-vpc'' ''us-south-1''])
   \<and>
   CreateSubnet (demo_scope ((account [])
       \<lparr> svc_CreatePublicGateway := (\<lambda>tr vpc zone. (None, Some (Err ''zone has no capacity''))) \<rparr>)) []
     = (Ret (Some \<lparr> subnet_ID = Some ''subnet-demo-subnet'', subnet_Name = Some ''demo-subnet'' \<rparr>,
             Some (Err ''zone has no capacity'')),
        [Call_ListSubnets, Call_ListVPCAddressPrefixes ''vpc-demo-vpc'',
         Call_CreateSubnet ''10.240.0.0/18'' ''demo-subnet'' ''vpc-demo-vpc'' ''us-south-1'',
         Call_CreatePublicGateway ''vpc-demo-vpc'' ''us-south-1''])"
proof -
  let ?none = "demo_scope ((account []) \<lparr> svc_CreatePublicGateway := (\<lambda>tr vpc zone. (None, None)) \<rparr>)"
  let ?fail = "demo_scope ((account [])
       \<lparr> svc_CreatePublicGateway := (\<lambda>tr vpc zone. (None, Some (Err ''zone has no capacity''))) \<rparr>)"
  let ?sn = "\<lparr> subnet_ID = Some ''subnet-demo-subnet'', subnet_Name = Some ''demo-subnet'' \<rparr>"
  let ?tr2 = "[Call_ListSubnets, Call_ListVPCAddressPrefixes ''vpc-demo-vpc'']"
  have scan_none:
    "ensureSubnetUnique ?none (cluster_Name (IBMVPCCluster ?none) @ ''-subnet'') []
       = (Ret (None, None), [Call_ListSubnets])"
    by (simp add: ensureSubnetUnique_def go_simps scenario_defs)
  have prefix_none:
    "getSubnetAddrPrefix ?none (status_vpc_ID (status_VPC (Status (IBMVPCCluster ?none))))
       (spec_Zone (Spec (IBMVPCCluster ?none))) [Call_ListSubnets] = (Ret (''10.240.0.0/18'', None), ?tr2)"
    by (simp add: getSubnetAddrPrefix_def go_simps scenario_defs)
  have created_none:
    "svc_CreateSubnet (VPCService ?none) ?tr2 ''10.240.0.0/18'' (cluster_Name (IBMVPCCluster ?none) @ ''-subnet'')
       (status_vpc_ID (status_VPC (Status (IBMVPCCluster ?none)))) (spec_Zone (Spec (IBMVPCCluster ?none)))
     = (Some ?sn, None)"
    by (simp add: scenario_defs)
  have missing:
    "CreateSubnet ?none [] =
       (Ret (Some ?sn, None),
        [Call_ListSubnets, Call_ListVPCAddressPrefixes ''vpc-demo-vpc'',
         Call_CreateSubnet ''10.240.0.0/18'' ''demo-subnet'' ''vpc-demo-vpc'' ''us-south-1'',
         Call_CreatePublicGateway ''vpc-demo-vpc'' ''us-south-1''])"
    using CreateSubnet_reports_gateway_failure
            [OF scan_none prefix_none created_none, where pgw = None and e = "Err ''zone has no capacity''"]
    by (simp add: scenario_defs)
  have scan_fail:
    "ensureSubnetUnique ?fail (cluster_Name (IBMVPCCluster ?fail) @ ''-subnet'') []
       = (Ret (None, None), [Call_ListSubnets])"
    by (simp add: ensureSubnetUnique_def go_simps scenario_defs)
  have prefix_fail:
    "getSubnetAddrPrefix ?fail (status_vpc_ID (status_VPC (Status (IBMVPCCluster ?fail))))
       (spec_Zone (Spec (IBMVPCCluster ?fail))) [Call_ListSubnets] = (Ret (''10.240.0.0/18'', None), ?tr2)"
    by (simp add: getSubnetAddrPrefix_def go_simps scenario_defs)
  have created_fail:
    "svc_CreateSubnet (VPCService ?fail) ?tr2 ''10.240.0.0/18'' (cluster_Name (IBMVPCCluster ?fail) @ ''-subnet'')
       (status_vpc_ID (status_VPC (Status (IBMVPCCluster ?fail)))) (spec_Zone (Spec (IBMVPCCluster ?fail)))
     = (Some ?sn, None)"
    by (simp add: scenario_defs)
  have failed:
    "CreateSubnet ?fail [] =
       (Ret (Some ?sn, Some (Err ''zone has no capacity'')),
        [Call_ListSubnets, Call_ListVPCAddressPrefixes ''vpc-demo-vpc'',
         Call_CreateSubnet ''10.240.0.0/18'' ''demo-subnet'' ''vpc-demo-vpc'' ''us-south-1'',
         Call_CreatePublicGateway ''vpc-demo-vpc'' ''us-south-1''])"
    using CreateSubnet_reports_gateway_failure
            [OF scan_fail prefix_fail created_fail, where pgw = None and e = "Err ''zone has no capacity''"]
    by (simp add: scenario_defs)
  from missing failed show ?thesis by (rule conjI)
qed

text \<open>
  The claim as the specification words it fails: with the subnet created and the gateway
  create call refused, \<open>CreateSubnet\<close> returns the gateway's error.
\<close>

theorem CreateSubnet_gateway_failure_is_returned:
  "CreateSubnet (demo_scope ((account [])
       \<lparr> svc_CreatePublicGateway := (\<lambda>tr vpc zone. (None, Some (Err ''quota exceeded''))) \<rparr>)) []
     = (Ret (Some \<lparr> subnet_ID = Some ''subnet-demo-subnet'', subnet_Name = Some ''demo-subnet'' \<rparr>,
             Some (Err ''quota exceeded'')),
        [Call_ListSubnets, Call_ListVPCAddressPrefixes ''vpc-demo-vpc'',
         Call_CreateSubnet ''10.240.0.0/18'' ''demo-subnet'' ''vpc-demo-vpc'' ''us-south-1'',
         Call_CreatePublicGateway ''vpc-demo-vpc'' ''us-south-1''])"
  by (simp add: CreateSubnet_def ensureSubnetUnique_def getSubnetAddrPrefix_def createPublicGateWay_def
      go_simps scenario_defs Let_def)

section \<open>Subnet teardown\<close>

text \<open>
  C4. Whatever the service answers, the calls \<open>DeleteSubnet\<close> issues form one of six
  sequences: the gateway query always comes first, a gateway is deleted only straight
  after the detach call, and the subnet delete is always last. With a recorded subnet
  identifier: when the query returns a gateway and no error, the gateway is detached; a
  detach failure ends the run, wrapped as an unsetting and then a detaching error; after
  a successful detach the gateway is deleted; a failure there ends the run, wrapped as a
  gateway-deleting and then a detaching error; only after both succeeded is the subnet
  deleted, a failure being wrapped as a subnet-deleting error. When the query returns no
  gateway (or an error), the subnet delete follows the query directly.
\<close>

theorem DeleteSubnet_detaches_before_deleting:
  "(\<exists>sid g. snd (DeleteSubnet s tr) \<in>
      {tr,
       tr @ [Call_GetSubnetPublicGateway sid],
       tr @ [Call_GetSubnetPublicGateway sid, Call_DeleteSubnet sid],
       tr @ [Call_GetSubnetPublicGateway sid, Call_UnsetSubnetPublicGateway sid],
       tr @ [Call_GetSubnetPublicGateway sid, Call_UnsetSubnetPublicGateway sid,
             Call_DeletePublicGateway g],
       tr @ [Call_GetSubnetPublicGateway sid, Call_UnsetSubnetPublicGateway sid,
             Call_DeletePublicGateway g, Call_DeleteSubnet sid]})
   \<and>
   (status_subnet_ID (status_Subnet (Status (IBMVPCCluster s))) = Some subnetID \<longrightarrow>
    (svc_GetSubnetPublicGateway (VPCService s) tr subnetID = (Some gw, None) \<and> pgw_ID gw = Some pgwID \<longrightarrow>
      (case svc_UnsetSubnetPublicGateway (VPCService s) (tr @ [Call_GetSubnetPublicGateway subnetID])
              subnetID of
         Some e \<Rightarrow>
           DeleteSubnet s tr =
             (Ret (Some (Wrap (Wrap e (''Error when unsetting publicgateway for subnet '' @ subnetID))
                              (''Error when detaching publicgateway for subnet '' @ subnetID))),
              tr @ [Call_GetSubnetPublicGateway subnetID, Call_UnsetSubnetPublicGateway subnetID])
       | None \<Rightarrow>
          (case svc_DeletePublicGateway (VPCService s)
                  (tr @ [Call_GetSubnetPublicGateway subnetID, Call_UnsetSubnetPublicGateway subnetID])
                  pgwID of
             Some e \<Rightarrow>
               DeleteSubnet s tr =
                 (Ret (Some (Wrap (Wrap e (''Error when deleting publicgateway for subnet '' @ subnetID))
                                  (''Error when detaching publicgateway for subnet '' @ subnetID))),
                  tr @ [Call_GetSubnetPublicGateway subnetID, Call_UnsetSubnetPublicGateway subnetID,
                        Call_DeletePublicGateway pgwID])
           | None \<Rightarrow>
               DeleteSubnet s tr =
                 (Ret (map_option (\<lambda>e. Wrap e ''Error when deleting subnet '')
                         (svc_DeleteSubnet (VPCService s)
                            (tr @ [Call_GetSubnetPublicGateway subnetID,
                                   Call_UnsetSubnetPublicGateway subnetID,
                                   Call_DeletePublicGateway pgwID]) subnetID)),
                  tr @ [Call_GetSubnetPublicGateway subnetID, Call_UnsetSubnetPublicGateway subnetID,
                        Call_DeletePublicGateway pgwID, Call_DeleteSubnet subnetID]))))
    \<and>
    (fst (svc_GetSubnetPublicGateway (VPCService s) tr subnetID) = None \<or>
     snd (svc_GetSubnetPublicGateway (VPCService s) tr subnetID) \<noteq> None \<longrightarrow>
      DeleteSubnet s tr =
        (Ret (map_option (\<lambda>e. Wrap e ''Error when deleting subnet '')
                (svc_DeleteSubnet (VPCService s) (tr @ [Call_GetSubnetPublicGateway subnetID]) subnetID)),
         tr @ [Call_GetSubnetPublicGateway subnetID, Call_DeleteSubnet subnetID])))"
proof (intro conjI)
  show "\<exists>sid g. snd (DeleteSubnet s tr) \<in>
      {tr,
       tr @ [Call_GetSubnetPublicGateway sid],
       tr @ [Call_GetSubnetPublicGateway sid, Call_DeleteSubnet sid],
       tr @ [Call_GetSubnetPublicGateway sid, Call_UnsetSubnetPublicGateway sid],
       tr @ [Call_GetSubnetPublicGateway sid, Call_UnsetSubnetPublicGateway sid,
             Call_DeletePublicGateway g],
       tr @ [Call_GetSubnetPublicGateway sid, Call_UnsetSubnetPublicGateway sid,
             Call_DeletePublicGateway g, Call_DeleteSubnet sid]}"
    by (auto simp add: DeleteSubnet_def detachPublicGateway_def go_simps deref_def Let_def
        split: option.splits prod.splits)
next
  show "status_subnet_ID (status_Subnet (Status (IBMVPCCluster s))) = Some subnetID \<longrightarrow>
    (svc_GetSubnetPublicGateway (VPCService s) tr subnetID = (Some gw, None) \<and> pgw_ID gw = Some pgwID \<longrightarrow>
      (case svc_UnsetSubnetPublicGateway (VPCService s) (tr @ [Call_GetSubnetPublicGateway subnetID])
              subnetID of
         Some e \<Rightarrow>
           DeleteSubnet s tr =
             (Ret (Some (Wrap (Wrap e (''Error when unsetting publicgateway for subnet '' @ subnetID))
                              (''Error when detaching publicgateway for subnet '' @ subnetID))),
              tr @ [Call_GetSubnetPublicGateway subnetID, Call_UnsetSubnetPublicGateway subnetID])
       | None \<Rightarrow>
          (case svc_DeletePublicGateway (VPCService s)
                  (tr @ [Call_GetSubnetPublicGateway subnetID, Call_UnsetSubnetPublicGateway subnetID])
                  pgwID of
             Some e \<Rightarrow>
               DeleteSubnet s tr =
                 (Ret (Some (Wrap (Wrap e (''Error when deleting publicgateway for subnet '' @ subnetID))
                                  (''Error when detaching publicgateway for subnet '' @ subnetID))),
                  tr @ [Call_GetSubnetPublicGateway subnetID, Call_UnsetSubnetPublicGateway subnetID,
                        Call_DeletePublicGateway pgwID])
           | None \<Rightarrow>
               DeleteSubnet s tr =
                 (Ret (map_option (\<lambda>e. Wrap e ''Error when deleting subnet '')
                         (svc_DeleteSubnet (VPCService s)
                            (tr @ [Call_GetSubnetPublicGateway subnetID,
                                   Call_UnsetSubnetPublicGateway subnetID,
                                   Call_DeletePublicGateway pgwID]) subnetID)),
                  tr @ [Call_GetSubnetPublicGateway subnetID, Call_UnsetSubnetPublicGateway subnetID,
                        Call_DeletePublicGateway pgwID, Call_DeleteSubnet subnetID]))))
    \<and>
    (fst (svc_GetSubnetPublicGateway (VPCService s) tr subnetID) = None \<or>
     snd (svc_GetSubnetPublicGateway (VPCService s) tr subnetID) \<noteq> None \<longrightarrow>
      DeleteSubnet s tr =
        (Ret (map_option (\<lambda>e. Wrap e ''Error when deleting subnet '')
                (svc_DeleteSubnet (VPCService s) (tr @ [Call_GetSubnetPublicGateway subnetID]) subnetID)),
         tr @ [Call_GetSubnetPublicGateway subnetID, Call_DeleteSubnet subnetID]))"
    by (auto simp add: DeleteSubnet_def detachPublicGateway_def go_simps Let_def
        split: option.splits prod.splits)
qed

theorem DeleteSubnet_detaches_before_deleting_witness:
  "DeleteSubnet (demo_scope (account [])) []
     = (Ret None,
        [Call_GetSubnetPublicGateway ''subnet-demo-subnet'',
         Call_UnsetSubnetPublicGateway ''subnet-demo-subnet'',
         Call_DeletePublicGateway ''pgw-1'',
         Call_DeleteSubnet ''subnet-demo-subnet''])
   \<and>
   DeleteSubnet (demo_scope ((account [])
       \<lparr> svc_UnsetSubnetPublicGateway := (\<lambda>tr subnet. Some (Err ''conflict'')) \<rparr>)) []
     = (Ret (Some (Wrap (Wrap (Err ''conflict'')
                           ''Error when unsetting publicgateway for subnet subnet-demo-subnet'')
                      ''Error when detaching publicgateway for subnet subnet-demo-subnet'')),
        [Call_GetSubnetPublicGateway ''subnet-demo-subnet'',
         Call_UnsetSubnetPublicGateway ''subnet-demo-subnet''])
   \<and>
   DeleteSubnet (demo_scope ((account [])
       \<lparr> svc_GetSubnetPublicGateway := (\<lambda>tr subnet. (None, Some (Err ''not found''))) \<rparr>)) []
     = (Ret None,
        [Call_GetSubnetPublicGateway ''subnet-demo-subnet'', Call_DeleteSubnet ''subnet-demo-subnet''])
   \<and>
   DeleteSubnet (demo_scope ((account [])
       \<lparr> svc_DeletePublicGateway := (\<lambda>tr gw. Some (Err ''in use'')) \<rparr>)) []
     = (Ret (Some (Wrap (Wrap (Err ''in use'')
                           ''Error when deleting publicgateway for subnet subnet-demo-subnet'')
                      ''Error when detaching publicgateway for subnet subnet-demo-subnet'')),
        [Call_GetSubnetPublicGateway ''subnet-demo-subnet'',
         Call_UnsetSubnetPublicGateway ''subnet-demo-subnet'',
         Call_DeletePublicGateway ''pgw-1''])
   \<and>
   DeleteSubnet (demo_scope ((account [])
       \<lparr> svc_DeleteSubnet := (\<lambda>tr subnet. Some (Err ''busy'')) \<rparr>)) []
     = (Ret (Some (Wrap (Err ''busy'') ''Error when deleting subnet '')),
        [Call_GetSubnetPublicGateway ''subnet-demo-subnet'',
         Call_UnsetSubnetPublicGateway ''subnet-demo-subnet'',
         Call_DeletePublicGateway ''pgw-1'',
         Call_DeleteSubnet ''subnet-demo-subnet''])"
proof -
  have attached:
    "DeleteSubnet (demo_scope (account [])) []
       = (Ret None,
          [Call_GetSubnetPublicGateway ''subnet-demo-subnet'',
           Call_UnsetSubnetPublicGateway ''subnet-demo-subnet'',
           Call_DeletePublicGateway ''pgw-1'',
           Call_DeleteSubnet ''subnet-demo-subnet''])"
    using DeleteSubnet_detaches_before_deleting
            [where s = "demo_scope (account [])" and tr = "[]" and subnetID = "''subnet-demo-subnet''"
               and gw = "\<lparr> pgw_ID = Some ''pgw-1'' \<rparr>" and pgwID = "''pgw-1''", THEN conjunct2]
    by (simp add: scenario_defs)
  have detach_fails:
    "DeleteSubnet (demo_scope ((account [])
         \<lparr> svc_UnsetSubnetPublicGateway := (\<lambda>tr subnet. Some (Err ''conflict'')) \<rparr>)) []
       = (Ret (Some (Wrap (Wrap (Err ''conflict'')
                             ''Error when unsetting publicgateway for subnet subnet-demo-subnet'')
                        ''Error when detaching publicgateway for subnet subnet-demo-subnet'')),
          [Call_GetSubnetPublicGateway ''subnet-demo-subnet'',
           Call_UnsetSubnetPublicGateway ''subnet-demo-subnet''])"
    using DeleteSubnet_detaches_before_deleting
            [where s = "demo_scope ((account [])
                          \<lparr> svc_UnsetSubnetPublicGateway := (\<lambda>tr subnet. Some (Err ''conflict'')) \<rparr>)"
               and tr = "[]" and subnetID = "''subnet-demo-subnet''"
               and gw = "\<lparr> pgw_ID = Some ''pgw-1'' \<rparr>" and pgwID = "''pgw-1''", THEN conjunct2]
    by (simp add: scenario_defs)
  have no_gateway:
    "DeleteSubnet (demo_scope ((account [])
         \<lparr> svc_GetSubnetPublicGateway := (\<lambda>tr subnet. (None, Some (Err ''not found''))) \<rparr>)) []
       = (Ret None,
          [Call_GetSubnetPublicGateway ''subnet-demo-subnet'', Call_DeleteSubnet ''subnet-demo-subnet''])"
    using DeleteSubnet_detaches_before_deleting
            [where s = "demo_scope ((account [])
                          \<lparr> svc_GetSubnetPublicGateway := (\<lambda>tr subnet. (None, Some (Err ''not found''))) \<rparr>)"
               and tr = "[]" and subnetID = "''subnet-demo-subnet''"
               and gw = "\<lparr> pgw_ID = Some ''pgw-1'' \<rparr>" and pgwID = "''pgw-1''", THEN conjunct2]
    by (simp add: scenario_defs)
  have gateway_delete_fails:
    "DeleteSubnet (demo_scope ((account [])
         \<lparr> svc_DeletePublicGateway := (\<lambda>tr gw. Some (Err ''in use'')) \<rparr>)) []
       = (Ret (Some (Wrap (Wrap (Err ''in use'')
                             ''Error when deleting publicgateway for subnet subnet-demo-subnet'')
                        ''Error when detaching publicgateway for subnet subnet-demo-subnet'')),
          [Call_GetSubnetPublicGateway ''subnet-demo-subnet'',
           Call_UnsetSubnetPublicGateway ''subnet-demo-subnet'',
           Call_DeletePublicGateway ''pgw-1''])"
    using DeleteSubnet_detaches_before_deleting
            [where s = "demo_scope ((account [])
                          \<lparr> svc_DeletePublicGateway := (\<lambda>tr gw. Some (Err ''in use'')) \<rparr>)"
               and tr = "[]" and subnetID = "''subnet-demo-subnet''"
               and gw = "\<lparr> pgw_ID = Some ''pgw-1'' \<rparr>" and pgwID = "''pgw-1''", THEN conjunct2]
    by (simp add: scenario_defs)
  have subnet_delete_fails:
    "DeleteSubnet (demo_scope ((account [])
         \<lparr> svc_DeleteSubnet := (\<lambda>tr subnet. Some (Err ''busy'')) \<rparr>)) []
       = (Ret (Some (Wrap (Err ''busy'') ''Error when deleting subnet '')),
          [Call_GetSubnetPublicGateway ''subnet-demo-subnet'',
           Call_UnsetSubnetPublicGateway ''subnet-demo-subnet'',
           Call_DeletePublicGateway ''pgw-1'',
           Call_DeleteSubnet ''subnet-demo-subnet''])"
    using DeleteSubnet_detaches_before_deleting
            [where s = "demo_scope ((account [])
                          \<lparr> svc_DeleteSubnet := (\<lambda>tr subnet. Some (Err ''busy'')) \<rparr>)"
               and tr = "[]" and subnetID = "''subnet-demo-subnet''"
               and gw = "\<lparr> pgw_ID = Some ''pgw-1'' \<rparr>" and pgwID = "''pgw-1''", THEN conjunct2]
    by (simp add: scenario_defs)
  from attached detach_fails no_gateway gateway_delete_fails subnet_delete_fails show ?thesis by simp
qed

section \<open>Resolving the image and the network\<close>

lemma getImageID_cases:
  "(ref_ID imageRef = Some iid \<longrightarrow> getImageID imageRef m tr = (Ret (Some iid, None), tr))
   \<and>
   (ref_ID imageRef = None \<and> ref_Name imageRef = Some name \<and>
    ImageClient_GetAll (IBMPowerVSClient m) tr (ServiceInstanceID (machine_Spec (IBMPowerVSMachine m)))
      = (Some images, None) \<and>
    (\<forall>img\<in>set images. \<exists>n. Option.bind img img_Name = Some n \<and> n \<noteq> name) \<longrightarrow>
    getImageID imageRef m tr =
      (Ret (None, Some (Err ''failed to find an image ID'')),
       tr @ [Call_ImageGetAll (ServiceInstanceID (machine_Spec (IBMPowerVSMachine m)))]))
   \<and>
   (ref_ID imageRef = None \<and> ref_Name imageRef = Some name \<and>
    ImageClient_GetAll (IBMPowerVSClient m) tr (ServiceInstanceID (machine_Spec (IBMPowerVSMachine m)))
      = (Some images, None) \<and>
    scannable (\<lambda>img. Option.bind img img_Name) name images \<and>
    find (\<lambda>img. Option.bind img img_Name = Some name) images = Some (Some i) \<and>
    img_ImageID i = Some iid \<longrightarrow>
    getImageID imageRef m tr =
      (Ret (Some iid, None),
       tr @ [Call_ImageGetAll (ServiceInstanceID (machine_Spec (IBMPowerVSMachine m)))]))
   \<and>
   (ref_ID imageRef = None \<and> ref_Name imageRef = None \<longrightarrow>
    getImageID imageRef m tr = (Ret (None, Some (Err ''both ID and Name can't be nil'')), tr))"
  by (auto simp add: getImageID_def GetImages_def go_simps Let_def rangeFirst_absent rangeFirst_find)

lemma getNetworkID_cases:
  "(ref_ID network = Some nid \<longrightarrow> getNetworkID network m tr = (Ret (Some nid, None), tr))
   \<and>
   (ref_ID network = None \<and> ref_Name network = Some name \<and>
    PcloudNetworksGetall (IBMPowerVSClient m) tr (ServiceInstanceID (machine_Spec (IBMPowerVSMachine m)))
      = (Some resp, None) \<and> Payload resp = Some networks \<and>
    (\<forall>nw\<in>set networks. \<exists>n. Option.bind nw nw_Name = Some n \<and> n \<noteq> name) \<longrightarrow>
    getNetworkID network m tr =
      (Ret (None, Some (Err ''failed to find a network ID'')),
       tr @ [Call_PcloudNetworksGetall (ServiceInstanceID (machine_Spec (IBMPowerVSMachine m)))]))
   \<and>
   (ref_ID network = None \<and> ref_Name network = Some name \<and>
    PcloudNetworksGetall (IBMPowerVSClient m) tr (ServiceInstanceID (machine_Spec (IBMPowerVSMachine m)))
      = (Some resp, None) \<and> Payload resp = Some networks \<and>
    scannable (\<lambda>nw. Option.bind nw nw_Name) name networks \<and>
    find (\<lambda>nw. Option.bind nw nw_Name = Some name) networks = Some (Some n) \<and>
    nw_NetworkID n = Some nid \<longrightarrow>
    getNetworkID network m tr =
      (Ret (Some nid, None),
       tr @ [Call_PcloudNetworksGetall (ServiceInstanceID (machine_Spec (IBMPowerVSMachine m)))]))
   \<and>
   (ref_ID network = None \<and> ref_Name network = None \<longrightarrow>
    getNetworkID network m tr = (Ret (None, Some (Err ''both ID and Name can't be nil'')), tr))"
  by (auto simp add: getNetworkID_def GetNetworks_def go_simps Let_def rangeFirst_absent rangeFirst_find)

text \<open>
  C7. For an image reference and for a network reference alike: a supplied identifier is
  returned as it is, with no remote call, whether or not a name is supplied too; with a
  name only, the catalogue is listed once, a listing without that exact name yields an
  error and no identifier, and a listing with it yields the identifier of the first
  entry so named; with neither, an error is returned and no call is issued.
\<close>

theorem reference_resolution_precedence:
  "((ref_ID imageRef = Some iid \<longrightarrow> getImageID imageRef m tr = (Ret (Some iid, None), tr))
    \<and>
    (ref_ID imageRef = None \<and> ref_Name imageRef = Some name \<and>
     ImageClient_GetAll (IBMPowerVSClient m) tr (ServiceInstanceID (machine_Spec (IBMPowerVSMachine m)))
       = (Some images, None) \<and>
     (\<forall>img\<in>set images. \<exists>n. Option.bind img img_Name = Some n \<and> n \<noteq> name) \<longrightarrow>
     getImageID imageRef m tr =
       (Ret (None, Some (Err ''failed to find an image ID'')),
        tr @ [Call_ImageGetAll (ServiceInstanceID (machine_Spec (IBMPowerVSMachine m)))]))
    \<and>
    (ref_ID imageRef = None \<and> ref_Name imageRef = Some name \<and>
     ImageClient_GetAll (IBMPowerVSClient m) tr (ServiceInstanceID (machine_Spec (IBMPowerVSMachine m)))
       = (Some images, None) \<and>
     scannable (\<lambda>img. Option.bind img img_Name) name images \<and>
     find (\<lambda>img. Option.bind img img_Name = Some name) images = Some (Some i) \<and>
     img_ImageID i = Some iid \<longrightarrow>
     getImageID imageRef m tr =
       (Ret (Some iid, None),
        tr @ [Call_ImageGetAll (ServiceInstanceID (machine_Spec (IBMPowerVSMachine m)))]))
    \<and>
    (ref_ID imageRef = None \<and> ref_Name imageRef = None \<longrightarrow>
     getImageID imageRef m tr = (Ret (None, Some (Err ''both ID and Name can't be nil'')), tr)))
   \<and>
   ((ref_ID network = Some nid \<longrightarrow> getNetworkID network m tr = (Ret (Some nid, None), tr))
    \<and>
    (ref_ID network = None \<and> ref_Name network = Some nname \<and>
     PcloudNetworksGetall (IBMPowerVSClient m) tr (ServiceInstanceID (machine_Spec (IBMPowerVSMachine m)))
       = (Some resp, None) \<and> Payload resp = Some networks \<and>
     (\<forall>nw\<in>set networks. \<exists>n. Option.bind nw nw_Name = Some n \<and> n \<noteq> nname) \<longrightarrow>
     getNetworkID network m tr =
       (Ret (None, Some (Err ''failed to find a network ID'')),
        tr @ [Call_PcloudNetworksGetall (ServiceInstanceID (machine_Spec (IBMPowerVSMachine m)))]))
    \<and>
    (ref_ID network = None \<and> ref_Name network = Some nname \<and>
     PcloudNetworksGetall (IBMPowerVSClient m) tr (ServiceInstanceID (machine_Spec (IBMPowerVSMachine m)))
       = (Some resp, None) \<and> Payload resp = Some networks \<and>
     scannable (\<lambda>nw. Option.bind nw nw_Name) nname networks \<and>
     find (\<lambda>nw. Option.bind nw nw_Name = Some nname) networks = Some (Some nwr) \<and>
     nw_NetworkID nwr = Some nid \<longrightarrow>
     getNetworkID network m tr =
       (Ret (Some nid, None),
        tr @ [Call_PcloudNetworksGetall (ServiceInstanceID (machine_Spec (IBMPowerVSMachine m)))]))
    \<and>
    (ref_ID network = None \<and> ref_Name network = None \<longrightarrow>
     getNetworkID network m tr = (Ret (None, Some (Err ''both ID and Name can't be nil'')), tr)))"
  by (rule conjI[OF getImageID_cases getNetworkID_cases])

theorem reference_resolution_precedence_witness:
  "getImageID \<lparr> ref_ID = Some ''img-9'', ref_Name = Some ''centos-8'' \<rparr> (machine_scope [] ''8'' ''0.25'') []
     = (Ret (Some ''img-9'', None), [])
   \<and>
   getImageID \<lparr> ref_ID = None, ref_Name = Some ''CentOS-8'' \<rparr> (machine_scope [] ''8'' ''0.25'') []
     = (Ret (None, Some (Err ''failed to find an image ID'')), [Call_ImageGetAll ''svc-1''])
   \<and>
   getImageID \<lparr> ref_ID = None, ref_Name = Some ''centos-8'' \<rparr> (machine_scope [] ''8'' ''0.25'') []
     = (Ret (Some ''img-1'', None), [Call_ImageGetAll ''svc-1''])
   \<and>
   getImageID \<lparr> ref_ID = None, ref_Name = None \<rparr> (machine_scope [] ''8'' ''0.25'') []
     = (Ret (None, Some (Err ''both ID and Name can't be nil'')), [])
   \<and>
   getNetworkID \<lparr> ref_ID = Some ''net-9'', ref_Name = Some ''capi-net'' \<rparr> (machine_scope [] ''8'' ''0.25'') []
     = (Ret (Some ''net-9'', None), [])
   \<and>
   getNetworkID \<lparr> ref_ID = None, ref_Name = Some ''other-net'' \<rparr> (machine_scope [] ''8'' ''0.25'') []
     = (Ret (None, Some (Err ''failed to find a network ID'')), [Call_PcloudNetworksGetall ''svc-1''])
   \<and>
   getNetworkID \<lparr> ref_ID = None, ref_Name = Some ''capi-net'' \<rparr> (machine_scope [] ''8'' ''0.25'') []
     = (Ret (Some ''net-1'', None), [Call_PcloudNetworksGetall ''svc-1''])
   \<and>
   getNetworkID \<lparr> ref_ID = None, ref_Name = None \<rparr> (machine_scope [] ''8'' ''0.25'') []
     = (Ret (None, Some (Err ''both ID and Name can't be nil'')), [])"
proof -
  let ?m = "machine_scope [] ''8'' ''0.25''"
  let ?images = "[Some \<lparr> img_ImageID = Some ''img-1'', img_Name = Some ''centos-8'' \<rparr>]"
  let ?networks = "[Some \<lparr> nw_NetworkID = Some ''net-1'', nw_Name = Some ''capi-net'' \<rparr>]"
  note by_id = reference_resolution_precedence
    [where m = ?m and tr = "[]"
       and imageRef = "\<lparr> ref_ID = Some ''img-9'', ref_Name = Some ''centos-8'' \<rparr>" and iid = "''img-9''"
       and name = "''centos-8''" and images = ?images
       and i = "\<lparr> img_ImageID = Some ''img-1'', img_Name = Some ''centos-8'' \<rparr>"
       and network = "\<lparr> ref_ID = Some ''net-9'', ref_Name = Some ''capi-net'' \<rparr>" and nid = "''net-9''"
       and nname = "''capi-net''" and resp = "\<lparr> Payload = Some ?networks \<rparr>" and networks = ?networks
       and nwr = "\<lparr> nw_NetworkID = Some ''net-1'', nw_Name = Some ''capi-net'' \<rparr>"]
  note no_match = reference_resolution_precedence
    [where m = ?m and tr = "[]"
       and imageRef = "\<lparr> ref_ID = None, ref_Name = Some ''CentOS-8'' \<rparr>" and iid = "''img-1''"
       and name = "''CentOS-8''" and images = ?images
       and i = "\<lparr> img_ImageID = Some ''img-1'', img_Name = Some ''centos-8'' \<rparr>"
       and network = "\<lparr> ref_ID = None, ref_Name = Some ''other-net'' \<rparr>" and nid = "''net-1''"
       and nname = "''other-net''" and resp = "\<lparr> Payload = Some ?networks \<rparr>" and networks = ?networks
       and nwr = "\<lparr> nw_NetworkID = Some ''net-1'', nw_Name = Some ''capi-net'' \<rparr>"]
  note by_name = reference_resolution_precedence
    [where m = ?m and tr = "[]"
       and imageRef = "\<lparr> ref_ID = None, ref_Name = Some ''centos-8'' \<rparr>" and iid = "''img-1''"
       and name = "''centos-8''" and images = ?images
       and i = "\<lparr> img_ImageID = Some ''img-1'', img_Name = Some ''centos-8'' \<rparr>"
       and network = "\<lparr> ref_ID = None, ref_Name = Some ''capi-net'' \<rparr>" and nid = "''net-1''"
       and nname = "''capi-net''" and resp = "\<lparr> Payload = Some ?networks \<rparr>" and networks = ?networks
       and nwr = "\<lparr> nw_NetworkID = Some ''net-1'', nw_Name = Some ''capi-net'' \<rparr>"]
  note neither = reference_resolution_precedence
    [where m = ?m and tr = "[]"
       and imageRef = "\<lparr> ref_ID = None, ref_Name = None \<rparr>" and iid = "''img-1''"
       and name = "''centos-8''" and images = ?images
       and i = "\<lparr> img_ImageID = Some ''img-1'', img_Name = Some ''centos-8'' \<rparr>"
       and network = "\<lparr> ref_ID = None, ref_Name = None \<rparr>" and nid = "''net-1''"
       and nname = "''capi-net''" and resp = "\<lparr> Payload = Some ?networks \<rparr>" and networks = ?networks
       and nwr = "\<lparr> nw_NetworkID = Some ''net-1'', nw_Name = Some ''capi-net'' \<rparr>"]
  have i1: "getImageID \<lparr> ref_ID = Some ''img-9'', ref_Name = Some ''centos-8'' \<rparr> ?m []
              = (Ret (Some ''img-9'', None), [])"
    using by_id[THEN conjunct1] by simp
  have i2: "getImageID \<lparr> ref_ID = None, ref_Name = Some ''CentOS-8'' \<rparr> ?m []
              = (Ret (None, Some (Err ''failed to find an image ID'')), [Call_ImageGetAll ''svc-1''])"
    using no_match[THEN conjunct1] by (simp add: scenario_defs scannable_def)
  have i3: "getImageID \<lparr> ref_ID = None, ref_Name = Some ''centos-8'' \<rparr> ?m []
              = (Ret (Some ''img-1'', None), [Call_ImageGetAll ''svc-1''])"
    using by_name[THEN conjunct1] by (simp add: scenario_defs scannable_def)
  have i4: "getImageID \<lparr> ref_ID = None, ref_Name = None \<rparr> ?m []
              = (Ret (None, Some (Err ''both ID and Name can't be nil'')), [])"
    using neither[THEN conjunct1] by simp
  have n1: "getNetworkID \<lparr> ref_ID = Some ''net-9'', ref_Name = Some ''capi-net'' \<rparr> ?m []
              = (Ret (Some ''net-9'', None), [])"
    using by_id[THEN conjunct2] by simp
  have n2: "getNetworkID \<lparr> ref_ID = None, ref_Name = Some ''other-net'' \<rparr> ?m []
              = (Ret (None, Some (Err ''failed to find a network ID'')), [Call_PcloudNetworksGetall ''svc-1''])"
    using no_match[THEN conjunct2] by (simp add: scenario_defs scannable_def)
  have n3: "getNetworkID \<lparr> ref_ID = None, ref_Name = Some ''capi-net'' \<rparr> ?m []
              = (Ret (Some ''net-1'', None), [Call_PcloudNetworksGetall ''svc-1''])"
    using by_name[THEN conjunct2] by (simp add: scenario_defs scannable_def)
  have n4: "getNetworkID \<lparr> ref_ID = None, ref_Name = None \<rparr> ?m []
              = (Ret (None, Some (Err ''both ID and Name can't be nil'')), [])"
    using neither[THEN conjunct2] by simp
  from i1 i2 i3 i4 n1 n2 n3 n4 show ?thesis by simp
qed

section \<open>Creating the instance: the numeric fields and the result\<close>

text \<open>
  C3, as the code has it. \<open>CreateMachine\<close>, run with the Go library, parses the memory
  and processor strings only after the instance scan has found no instance of the target
  name and the bootstrap data has been read. From there, a memory string that
  \<^verbatim>\<open>strconv.ParseFloat\<close> rejects (\<open>abc\<close> is one) makes it return an error that quotes the
  string, and so does a processor string once the memory parsed; in both cases the
  history is as the two reads left it, so neither the image or network scan nor the
  create call is issued. The strings \<open>8\<close> and \<open>0.25\<close> parse, to the floating-point
  numbers 8.0 and 0.25, and with them in the two fields the create request carries
  these two numbers.
\<close>

theorem CreateMachine_rejects_unparsed_shape:
  "ParseFloat go_stdlib ''8'' = (Finite False 4503599627370496 (- 49), None)
   \<and> float64_value (Finite False 4503599627370496 (- 49)) = Some 8
   \<and> ParseFloat go_stdlib ''0.25'' = (Finite False 4503599627370496 (- 54), None)
   \<and> float64_value (Finite False 4503599627370496 (- 54)) = Some (1 / 4)
   \<and> snd (ParseFloat go_stdlib ''abc'') \<noteq> None
   \<and>
   (ensureInstanceUnique m (machine_Name (IBMPowerVSMachine m)) tr = (Ret (None, None), tr1) \<and>
    GetBootstrapData go_stdlib m tr1 = (Ret (cloudInitData, None), tr2)
    \<longrightarrow>
    (snd (ParseFloat go_stdlib (Memory (machine_Spec (IBMPowerVSMachine m)))) \<noteq> None \<longrightarrow>
       CreateMachine go_stdlib m tr =
         (Ret (None, Some (Err (''failed to convert memory('' @ Memory (machine_Spec (IBMPowerVSMachine m))
                                @ '') to float64''))), tr2))
    \<and>
    (snd (ParseFloat go_stdlib (Memory (machine_Spec (IBMPowerVSMachine m)))) = None \<and>
     snd (ParseFloat go_stdlib (Processors (machine_Spec (IBMPowerVSMachine m)))) \<noteq> None \<longrightarrow>
       CreateMachine go_stdlib m tr =
         (Ret (None, Some (Err (''failed to convert Processors(''
                                @ Processors (machine_Spec (IBMPowerVSMachine m)) @ '') to float64''))), tr2))
    \<and>
    (Memory (machine_Spec (IBMPowerVSMachine m)) = ''8'' \<and>
     Processors (machine_Spec (IBMPowerVSMachine m)) = ''0.25'' \<and>
     getImageID (spec_Image (machine_Spec (IBMPowerVSMachine m))) m tr2 = (Ret (imageID, None), tr3) \<and>
     getNetworkID (spec_Network (machine_Spec (IBMPowerVSMachine m))) m tr3 = (Ret (networkID, None), tr4)
     \<longrightarrow>
       snd (CreateMachine go_stdlib m tr) =
         tr4 @ [Call_InstanceCreate
                  \<lparr> pic_ImageID = imageID, pic_KeyPairName = SSHKey (machine_Spec (IBMPowerVSMachine m)),
                    pic_Networks = [networkID], pic_ServerName = machine_Name (IBMPowerVSMachine m),
                    pic_Memory = Finite False 4503599627370496 (- 49),
                    pic_Processors = Finite False 4503599627370496 (- 54),
                    pic_ProcType = ProcType (machine_Spec (IBMPowerVSMachine m)),
                    pic_SysType = SysType (machine_Spec (IBMPowerVSMachine m)),
                    pic_UserData = cloudInitData \<rparr>
                  (ServiceInstanceID (machine_Spec (IBMPowerVSMachine m)))]))"
proof -
  have parses:
    "ParseFloat go_stdlib ''8'' = (Finite False 4503599627370496 (- 49), None)"
    "ParseFloat go_stdlib ''0.25'' = (Finite False 4503599627370496 (- 54), None)"
    "snd (ParseFloat go_stdlib ''abc'') \<noteq> None"
    by (simp_all add: go_stdlib_def ParseFloat64_8 ParseFloat64_025 ParseFloat64_abc)
  have run:
    "(snd (ParseFloat go_stdlib (Memory (machine_Spec (IBMPowerVSMachine m)))) \<noteq> None \<longrightarrow>
       CreateMachine go_stdlib m tr =
         (Ret (None, Some (Err (''failed to convert memory('' @ Memory (machine_Spec (IBMPowerVSMachine m))
                                @ '') to float64''))), tr2))
    \<and>
    (snd (ParseFloat go_stdlib (Memory (machine_Spec (IBMPowerVSMachine m)))) = None \<and>
     snd (ParseFloat go_stdlib (Processors (machine_Spec (IBMPowerVSMachine m)))) \<noteq> None \<longrightarrow>
       CreateMachine go_stdlib m tr =
         (Ret (None, Some (Err (''failed to convert Processors(''
                                @ Processors (machine_Spec (IBMPowerVSMachine m)) @ '') to float64''))), tr2))
    \<and>
    (Memory (machine_Spec (IBMPowerVSMachine m)) = ''8'' \<and>
     Processors (machine_Spec (IBMPowerVSMachine m)) = ''0.25'' \<and>
     getImageID (spec_Image (machine_Spec (IBMPowerVSMachine m))) m tr2 = (Ret (imageID, None), tr3) \<and>
     getNetworkID (spec_Network (machine_Spec (IBMPowerVSMachine m))) m tr3 = (Ret (networkID, None), tr4)
     \<longrightarrow>
       snd (CreateMachine go_stdlib m tr) =
         tr4 @ [Call_InstanceCreate
                  \<lparr> pic_ImageID = imageID, pic_KeyPairName = SSHKey (machine_Spec (IBMPowerVSMachine m)),
                    pic_Networks = [networkID], pic_ServerName = machine_Name (IBMPowerVSMachine m),
                    pic_Memory = Finite False 4503599627370496 (- 49),
                    pic_Processors = Finite False 4503599627370496 (- 54),
                    pic_ProcType = ProcType (machine_Spec (IBMPowerVSMachine m)),
                    pic_SysType = SysType (machine_Spec (IBMPowerVSMachine m)),
                    pic_UserData = cloudInitData \<rparr>
                  (ServiceInstanceID (machine_Spec (IBMPowerVSMachine m)))])"
    if "ensureInstanceUnique m (machine_Name (IBMPowerVSMachine m)) tr = (Ret (None, None), tr1)"
      and "GetBootstrapData go_stdlib m tr1 = (Ret (cloudInitData, None), tr2)"
    using that parses(1,2)
    by (auto simp add: CreateMachine_def go_simps Let_def split: prod.splits option.splits)
  from parses run show ?thesis
    by (simp add: float64_value_8 float64_value_025)
qed

theorem CreateMachine_rejects_unparsed_shape_witness:
  "CreateMachine go_stdlib (machine_scope [] ''abc'' ''0.25'') []
     = (Ret (None, Some (Err ''failed to convert memory(abc) to float64'')),
        [Call_InstanceGetAll ''svc-1'', Call_SecretGet ''default'' ''demo-0-bootstrap''])
   \<and>
   CreateMachine go_stdlib (machine_scope [] ''8'' ''a quarter'') []
     = (Ret (None, Some (Err ''failed to convert Processors(a quarter) to float64'')),
        [Call_InstanceGetAll ''svc-1'', Call_SecretGet ''default'' ''demo-0-bootstrap''])
   \<and>
   snd (CreateMachine go_stdlib (machine_scope [] ''8'' ''0.25'') [])
     = [Call_InstanceGetAll ''svc-1'', Call_SecretGet ''default'' ''demo-0-bootstrap'',
        Call_ImageGetAll ''svc-1'',
        Call_InstanceCreate
          \<lparr> pic_ImageID = Some ''img-1'', pic_KeyPairName = ''key'', pic_Networks = [Some ''net-1''],
            pic_ServerName = ''demo-0'', pic_Memory = Finite False 4503599627370496 (- 49),
            pic_Processors = Finite False 4503599627370496 (- 54),
            pic_ProcType = ''shared'', pic_SysType = ''s922'', pic_UserData = ''I2Nsb3VkLWNvbmZpZw=='' \<rparr>
          ''svc-1'']"
proof -
  let ?reads = "[Call_InstanceGetAll ''svc-1'', Call_SecretGet ''default'' ''demo-0-bootstrap'']"
  have bad_memory:
    "CreateMachine go_stdlib (machine_scope [] ''abc'' ''0.25'') []
       = (Ret (None, Some (Err ''failed to convert memory(abc) to float64'')), ?reads)"
    using CreateMachine_rejects_unparsed_shape
            [where m = "machine_scope [] ''abc'' ''0.25''" and tr = "[]"
               and ?tr1.0 = "[Call_InstanceGetAll ''svc-1'']" and ?tr2.0 = ?reads
               and ?tr3.0 = ?reads and ?tr4.0 = ?reads
               and cloudInitData = "''I2Nsb3VkLWNvbmZpZw==''"
               and imageID = None and networkID = None]
    by (simp add: ensureInstanceUnique_def GetBootstrapData_def go_simps scenario_defs Let_def)
  have bad_processors:
    "CreateMachine go_stdlib (machine_scope [] ''8'' ''a quarter'') []
       = (Ret (None, Some (Err ''failed to convert Processors(a quarter) to float64'')), ?reads)"
    using CreateMachine_rejects_unparsed_shape
            [where m = "machine_scope [] ''8'' ''a quarter''" and tr = "[]"
               and ?tr1.0 = "[Call_InstanceGetAll ''svc-1'']" and ?tr2.0 = ?reads
               and ?tr3.0 = ?reads and ?tr4.0 = ?reads
               and cloudInitData = "''I2Nsb3VkLWNvbmZpZw==''"
               and imageID = None and networkID = None]
    by (simp add: ensureInstanceUnique_def GetBootstrapData_def go_simps scenario_defs Let_def)
  have parsed:
    "snd (CreateMachine go_stdlib (machine_scope [] ''8'' ''0.25'') [])
       = ?reads @ [Call_ImageGetAll ''svc-1'',
          Call_InstanceCreate
            \<lparr> pic_ImageID = Some ''img-1'', pic_KeyPairName = ''key'', pic_Networks = [Some ''net-1''],
              pic_ServerName = ''demo-0'', pic_Memory = Finite False 4503599627370496 (- 49),
              pic_Processors = Finite False 4503599627370496 (- 54),
              pic_ProcType = ''shared'', pic_SysType = ''s922'', pic_UserData = ''I2Nsb3VkLWNvbmZpZw=='' \<rparr>
            ''svc-1'']"
    using CreateMachine_rejects_unparsed_shape
            [where m = "machine_scope [] ''8'' ''0.25''" and tr = "[]"
               and ?tr1.0 = "[Call_InstanceGetAll ''svc-1'']" and ?tr2.0 = ?reads
               and ?tr3.0 = "?reads @ [Call_ImageGetAll ''svc-1'']"
               and ?tr4.0 = "?reads @ [Call_ImageGetAll ''svc-1'']"
               and cloudInitData = "''I2Nsb3VkLWNvbmZpZw==''"
               and imageID = "Some ''img-1''" and networkID = "Some ''net-1''"]
    by (simp add: ensureInstanceUnique_def GetBootstrapData_def getImageID_def GetImages_def
        getNetworkID_def go_simps scenario_defs Let_def)
  from bad_memory bad_processors parsed show ?thesis by simp
qed

text \<open>
  The claim as the specification words it fails twice over a memory string that does
  not parse: the instance listing and the secret read are issued before the string is
  looked at, and when an instance of the target name is listed no error is returned at
  all.
\<close>

theorem CreateMachine_lists_before_parsing:
  "ParseFloat go_stdlib ''abc''
     = (Finite False 0 (- 1074),
        Some (Err (''strconv.ParseFloat: parsing '' @ quote ''abc'' @ '': invalid syntax'')))
   \<and>
   CreateMachine go_stdlib (machine_scope [] ''abc'' ''0.25'') []
     = (Ret (None, Some (Err ''failed to convert memory(abc) to float64'')),
        [Call_InstanceGetAll ''svc-1'', Call_SecretGet ''default'' ''demo-0-bootstrap''])
   \<and>
   CreateMachine go_stdlib (machine_scope [Some (new_instance ''demo-0'')] ''abc'' ''0.25'') []
     = (Ret (Some (new_instance ''demo-0''), None), [Call_InstanceGetAll ''svc-1''])"
  by (simp add: CreateMachine_def ensureInstanceUnique_def GetBootstrapData_def go_simps
      scenario_defs Let_def)



end
